theory Spec2Isabelle
  imports Main
begin

section \<open>Core types (types.ts)\<close>

datatype PieceType = PAWN | ROOK | KNIGHT | BISHOP | QUEEN | KING

datatype Color = WHITE | BLACK

datatype GameStatus = ACTIVE | CHECK | CHECKMATE | STALEMATE | DRAW

datatype MoveType = NORMAL | CAPTURE | CASTLE_KINGSIDE | CASTLE_QUEENSIDE | EN_PASSANT | PROMOTION

text \<open>
  Every \<^verbatim>\<open>throw new Error(...)\<close> of the core becomes one constructor:
  the \<^verbatim>\<open>Position\<close> constructor (with the offending coordinates),
  \<^verbatim>\<open>Board.setPiece\<close> on a position outside the board, and the two
  failures of \<^verbatim>\<open>Board.movePiece\<close>.
\<close>

datatype error =
    InvalidPosition int int
  | SetPieceInvalidPosition
  | InvalidMove
  | NoPieceAtPosition

text \<open>
  A position is a pair of JavaScript numbers; rows and columns are integers here. The
  record itself carries no range restriction: the range check lives in the constructor
  \<open>new_Position\<close>, as in the source, where it throws.
\<close>

record Position =
  row :: int
  col :: int

definition new_Position :: "int \<Rightarrow> int \<Rightarrow> error + Position" where
  "new_Position r c =
     (if r < 0 \<or> r > 7 \<or> c < 0 \<or> c > 7 then Inl (InvalidPosition r c)
      else Inr \<lparr>row = r, col = c\<rparr>)"

record Piece =
  ptype :: PieceType
  color :: Color
  hasMoved :: bool

text \<open>\<^verbatim>\<open>Piece.clone\<close>: a new piece with the same three fields.\<close>

definition clone_Piece :: "Piece \<Rightarrow> Piece" where
  "clone_Piece p = \<lparr>ptype = ptype p, color = color p, hasMoved = hasMoved p\<rparr>"

type_synonym Square = "Piece option"

record Move =
  mfrom :: Position
  mto :: Position
  piece :: Piece
  capturedPiece :: "Piece option"
  moveType :: MoveType
  timestamp :: int
  notationStr :: string
  promotionPiece :: "PieceType option"

record MoveResult =
  success :: bool
  resMove :: "Move option"
  resError :: "string option"
  newStatus :: "GameStatus option"
  resCapturedPiece :: "Piece option"

section \<open>Constants and helpers (constants.ts, boardHelpers.ts)\<close>

definition BOARD_SIZE :: int where
  "BOARD_SIZE = 8"

definition FILES :: "string list" where
  "FILES = [''a'', ''b'', ''c'', ''d'', ''e'', ''f'', ''g'', ''h'']"

definition INITIAL_BOARD_SETUP :: "(PieceType \<times> Color \<times> int \<times> int) list" where
  "INITIAL_BOARD_SETUP =
    [(ROOK, BLACK, 0, 0), (KNIGHT, BLACK, 0, 1), (BISHOP, BLACK, 0, 2), (QUEEN, BLACK, 0, 3),
     (KING, BLACK, 0, 4), (BISHOP, BLACK, 0, 5), (KNIGHT, BLACK, 0, 6), (ROOK, BLACK, 0, 7),
     (PAWN, BLACK, 1, 0), (PAWN, BLACK, 1, 1), (PAWN, BLACK, 1, 2), (PAWN, BLACK, 1, 3),
     (PAWN, BLACK, 1, 4), (PAWN, BLACK, 1, 5), (PAWN, BLACK, 1, 6), (PAWN, BLACK, 1, 7),
     (PAWN, WHITE, 6, 0), (PAWN, WHITE, 6, 1), (PAWN, WHITE, 6, 2), (PAWN, WHITE, 6, 3),
     (PAWN, WHITE, 6, 4), (PAWN, WHITE, 6, 5), (PAWN, WHITE, 6, 6), (PAWN, WHITE, 6, 7),
     (ROOK, WHITE, 7, 0), (KNIGHT, WHITE, 7, 1), (BISHOP, WHITE, 7, 2), (QUEEN, WHITE, 7, 3),
     (KING, WHITE, 7, 4), (BISHOP, WHITE, 7, 5), (KNIGHT, WHITE, 7, 6), (ROOK, WHITE, 7, 7)]"

text \<open>A direction vector \<^verbatim>\<open>{ row, col }\<close> of \<^verbatim>\<open>DIRECTIONS\<close>.\<close>

record Offset =
  drow :: int
  dcol :: int

definition DIRECTIONS_ROOK :: "Offset list" where
  "DIRECTIONS_ROOK =
    [\<lparr>drow = -1, dcol = 0\<rparr>, \<lparr>drow = 1, dcol = 0\<rparr>,
     \<lparr>drow = 0, dcol = -1\<rparr>, \<lparr>drow = 0, dcol = 1\<rparr>]"

definition DIRECTIONS_BISHOP :: "Offset list" where
  "DIRECTIONS_BISHOP =
    [\<lparr>drow = -1, dcol = -1\<rparr>, \<lparr>drow = -1, dcol = 1\<rparr>,
     \<lparr>drow = 1, dcol = -1\<rparr>, \<lparr>drow = 1, dcol = 1\<rparr>]"

definition DIRECTIONS_KNIGHT :: "Offset list" where
  "DIRECTIONS_KNIGHT =
    [\<lparr>drow = -2, dcol = -1\<rparr>, \<lparr>drow = -2, dcol = 1\<rparr>,
     \<lparr>drow = -1, dcol = -2\<rparr>, \<lparr>drow = -1, dcol = 2\<rparr>,
     \<lparr>drow = 1, dcol = -2\<rparr>, \<lparr>drow = 1, dcol = 2\<rparr>,
     \<lparr>drow = 2, dcol = -1\<rparr>, \<lparr>drow = 2, dcol = 1\<rparr>]"

definition DIRECTIONS_KING :: "Offset list" where
  "DIRECTIONS_KING =
    [\<lparr>drow = -1, dcol = -1\<rparr>, \<lparr>drow = -1, dcol = 0\<rparr>, \<lparr>drow = -1, dcol = 1\<rparr>,
     \<lparr>drow = 0, dcol = -1\<rparr>, \<lparr>drow = 0, dcol = 1\<rparr>,
     \<lparr>drow = 1, dcol = -1\<rparr>, \<lparr>drow = 1, dcol = 0\<rparr>, \<lparr>drow = 1, dcol = 1\<rparr>]"

definition isValidPosition :: "int \<Rightarrow> int \<Rightarrow> bool" where
  "isValidPosition r c \<longleftrightarrow> r \<ge> 0 \<and> r < BOARD_SIZE \<and> c \<ge> 0 \<and> c < BOARD_SIZE"

definition getOppositeColor :: "Color \<Rightarrow> Color" where
  "getOppositeColor c = (if c = WHITE then BLACK else WHITE)"

definition getPawnDirection :: "Color \<Rightarrow> int" where
  "getPawnDirection c = (if c = WHITE then -1 else 1)"

definition getPawnStartRow :: "Color \<Rightarrow> int" where
  "getPawnStartRow c = (if c = WHITE then 6 else 1)"

definition getPawnPromotionRow :: "Color \<Rightarrow> int" where
  "getPawnPromotionRow c = (if c = WHITE then 0 else 7)"

definition getBackRank :: "Color \<Rightarrow> int" where
  "getBackRank c = (if c = WHITE then 7 else 0)"

section \<open>Board (Board.ts)\<close>

text \<open>
  The board is the grid \<^verbatim>\<open>squares[row][col]\<close>, modelled as a function from
  positions to squares. Pieces are values: \<^verbatim>\<open>Board.clone\<close> copies every piece
  (\<open>clone_Board\<close> below), so a simulated move on a clone is a new board value, and
  the assignment \<^verbatim>\<open>piece.hasMoved = true\<close> in \<^verbatim>\<open>movePiece\<close> is a
  record update of the piece that is written to the destination.
\<close>

type_synonym Board = "Position \<Rightarrow> Square"

definition board_isValidPosition :: "Position \<Rightarrow> bool" where
  "board_isValidPosition pos \<longleftrightarrow>
     row pos \<ge> 0 \<and> row pos < BOARD_SIZE \<and> col pos \<ge> 0 \<and> col pos < BOARD_SIZE"

definition createEmptyBoard :: Board where
  "createEmptyBoard = (\<lambda>pos. None)"

definition getPiece :: "Board \<Rightarrow> Position \<Rightarrow> Square" where
  "getPiece b pos = (if \<not> board_isValidPosition pos then None else b pos)"

definition setPiece :: "Board \<Rightarrow> Position \<Rightarrow> Square \<Rightarrow> error + Board" where
  "setPiece b pos sq =
     (if \<not> board_isValidPosition pos then Inl SetPieceInvalidPosition
      else Inr (b(pos := sq)))"

definition movePiece :: "Board \<Rightarrow> Position \<Rightarrow> Position \<Rightarrow> error + Board" where
  "movePiece b from to =
     (if \<not> board_isValidPosition from \<or> \<not> board_isValidPosition to then Inl InvalidMove
      else case getPiece b from of
        None \<Rightarrow> Inl NoPieceAtPosition
      | Some p \<Rightarrow>
          (case setPiece b to (Some (p\<lparr>hasMoved := True\<rparr>)) of
             Inl e \<Rightarrow> Inl e
           | Inr b1 \<Rightarrow> setPiece b1 from None))"

definition isEmpty :: "Board \<Rightarrow> Position \<Rightarrow> bool" where
  "isEmpty b pos \<longleftrightarrow> getPiece b pos = None"

text \<open>The squares in the order of the nested loops \<^verbatim>\<open>for row ... for col ...\<close>.\<close>

definition allPositions :: "Position list" where
  "allPositions = concat (map (\<lambda>r. map (\<lambda>c. \<lparr>row = r, col = c\<rparr>) [0..7]) [0..7])"

definition findPiece :: "Board \<Rightarrow> PieceType \<Rightarrow> Color \<Rightarrow> Position option" where
  "findPiece b t c =
     find (\<lambda>pos. case getPiece b pos of None \<Rightarrow> False
                 | Some p \<Rightarrow> ptype p = t \<and> color p = c) allPositions"

definition getPiecesOfColor :: "Board \<Rightarrow> Color \<Rightarrow> (Piece \<times> Position) list" where
  "getPiecesOfColor b c =
     concat (map (\<lambda>pos. case getPiece b pos of None \<Rightarrow> []
                        | Some p \<Rightarrow> if color p = c then [(p, pos)] else []) allPositions)"

definition clone_Board :: "Board \<Rightarrow> Board" where
  "clone_Board b = (\<lambda>pos. map_option clone_Piece (b pos))"

fun setupInitialPosition :: "(PieceType \<times> Color \<times> int \<times> int) list \<Rightarrow> Board \<Rightarrow> error + Board" where
  "setupInitialPosition [] b = Inr b"
| "setupInitialPosition ((t, c, r, k) # rest) b =
     (case new_Position r k of
        Inl e \<Rightarrow> Inl e
      | Inr pos \<Rightarrow>
          (case setPiece b pos (Some \<lparr>ptype = t, color = c, hasMoved = False\<rparr>) of
             Inl e \<Rightarrow> Inl e
           | Inr b1 \<Rightarrow> setupInitialPosition rest b1))"

definition new_Board :: "error + Board" where
  "new_Board = setupInitialPosition INITIAL_BOARD_SETUP createEmptyBoard"

section \<open>MoveGenerator (MoveGenerator.ts)\<close>

text \<open>
  \<^verbatim>\<open>generatePawnMoves\<close> builds \<^verbatim>\<open>forwardOne\<close> (and
  \<^verbatim>\<open>forwardTwo\<close>) with the throwing constructor before it asks
  \<^verbatim>\<open>isValidPosition\<close>; the diagonal targets are tested first and constructed
  afterwards, so their construction is the record itself.
\<close>

definition pawnCaptures :: "Board \<Rightarrow> Position \<Rightarrow> Color \<Rightarrow> Offset list \<Rightarrow> Position list" where
  "pawnCaptures b position c captureDirs =
     concat (map (\<lambda>dir.
        let targetRow = row position + drow dir; targetCol = col position + dcol dir in
        if isValidPosition targetRow targetCol then
          (let capturePos = \<lparr>row = targetRow, col = targetCol\<rparr> in
           case getPiece b capturePos of
             None \<Rightarrow> []
           | Some targetPiece \<Rightarrow> if color targetPiece \<noteq> c then [capturePos] else [])
        else []) captureDirs)"

definition generatePawnMoves :: "Board \<Rightarrow> Position \<Rightarrow> Color \<Rightarrow> error + Position list" where
  "generatePawnMoves b position c =
     (let direction = getPawnDirection c; startRow = getPawnStartRow c in
      case new_Position (row position + direction) (col position) of
        Inl e \<Rightarrow> Inl e
      | Inr forwardOne \<Rightarrow>
          (case
             (if isValidPosition (row forwardOne) (col forwardOne) \<and> isEmpty b forwardOne then
                (if row position = startRow then
                   (case new_Position (row position + direction * 2) (col position) of
                      Inl e \<Rightarrow> Inl e
                    | Inr forwardTwo \<Rightarrow>
                        if isValidPosition (row forwardTwo) (col forwardTwo) \<and> isEmpty b forwardTwo
                        then Inr [forwardOne, forwardTwo]
                        else Inr [forwardOne])
                 else Inr [forwardOne])
              else Inr [])
           of
             Inl e \<Rightarrow> Inl e
           | Inr moves \<Rightarrow>
               Inr (moves @ pawnCaptures b position c
                      [\<lparr>drow = direction, dcol = -1\<rparr>, \<lparr>drow = direction, dcol = 1\<rparr>])))"

text \<open>
  The \<^verbatim>\<open>while\<close> loop of \<^verbatim>\<open>generateSlidingMoves\<close> for one direction. The
  conjunct on the direction is not in the source: it excludes the zero vector, with which
  the source's loop would not leave an empty square. No entry of \<^verbatim>\<open>DIRECTIONS\<close>
  is zero (lemma \<open>DIRECTIONS_nonzero\<close>), so the conjunct holds in every call the program
  makes.
\<close>

function slide :: "Board \<Rightarrow> Color \<Rightarrow> Offset \<Rightarrow> int \<Rightarrow> int \<Rightarrow> Position list" where
  "slide b c direction currentRow currentCol =
     (if isValidPosition currentRow currentCol \<and> (drow direction \<noteq> 0 \<or> dcol direction \<noteq> 0) then
        (let targetPos = \<lparr>row = currentRow, col = currentCol\<rparr> in
         case getPiece b targetPos of
           None \<Rightarrow> targetPos # slide b c direction (currentRow + drow direction) (currentCol + dcol direction)
         | Some targetPiece \<Rightarrow> if color targetPiece \<noteq> c then [targetPos] else [])
      else [])"
  by pat_completeness auto
termination
  by (relation "measure (\<lambda>(b, c, d, r, k).
        if drow d > 0 then nat (8 - r) else if drow d < 0 then nat (r + 1)
        else if dcol d > 0 then nat (8 - k) else nat (k + 1))")
     (auto simp: isValidPosition_def BOARD_SIZE_def)

declare slide.simps [simp del]

definition generateSlidingMoves :: "Board \<Rightarrow> Position \<Rightarrow> Color \<Rightarrow> Offset list \<Rightarrow> Position list" where
  "generateSlidingMoves b position c directions =
     concat (map (\<lambda>direction.
        slide b c direction (row position + drow direction) (col position + dcol direction)) directions)"

definition generateRookMoves :: "Board \<Rightarrow> Position \<Rightarrow> Color \<Rightarrow> Position list" where
  "generateRookMoves b position c = generateSlidingMoves b position c DIRECTIONS_ROOK"

definition generateBishopMoves :: "Board \<Rightarrow> Position \<Rightarrow> Color \<Rightarrow> Position list" where
  "generateBishopMoves b position c = generateSlidingMoves b position c DIRECTIONS_BISHOP"

definition generateQueenMoves :: "Board \<Rightarrow> Position \<Rightarrow> Color \<Rightarrow> Position list" where
  "generateQueenMoves b position c =
     generateSlidingMoves b position c DIRECTIONS_ROOK @ generateSlidingMoves b position c DIRECTIONS_BISHOP"

text \<open>The loop shared by \<^verbatim>\<open>generateKnightMoves\<close> and \<^verbatim>\<open>generateKingMoves\<close>.\<close>

definition offsetMoves :: "Board \<Rightarrow> Position \<Rightarrow> Color \<Rightarrow> Offset list \<Rightarrow> Position list" where
  "offsetMoves b position c directions =
     concat (map (\<lambda>direction.
        let targetRow = row position + drow direction; targetCol = col position + dcol direction in
        if isValidPosition targetRow targetCol then
          (let targetPos = \<lparr>row = targetRow, col = targetCol\<rparr> in
           case getPiece b targetPos of
             None \<Rightarrow> [targetPos]
           | Some targetPiece \<Rightarrow> if color targetPiece \<noteq> c then [targetPos] else [])
        else []) directions)"

definition generateKnightMoves :: "Board \<Rightarrow> Position \<Rightarrow> Color \<Rightarrow> Position list" where
  "generateKnightMoves b position c = offsetMoves b position c DIRECTIONS_KNIGHT"

definition generateKingMoves :: "Board \<Rightarrow> Position \<Rightarrow> Color \<Rightarrow> Position list" where
  "generateKingMoves b position c = offsetMoves b position c DIRECTIONS_KING"

definition generateMoves :: "Board \<Rightarrow> Position \<Rightarrow> Piece \<Rightarrow> error + Position list" where
  "generateMoves b position p =
     (case ptype p of
        PAWN \<Rightarrow> generatePawnMoves b position (color p)
      | ROOK \<Rightarrow> Inr (generateRookMoves b position (color p))
      | KNIGHT \<Rightarrow> Inr (generateKnightMoves b position (color p))
      | BISHOP \<Rightarrow> Inr (generateBishopMoves b position (color p))
      | QUEEN \<Rightarrow> Inr (generateQueenMoves b position (color p))
      | KING \<Rightarrow> Inr (generateKingMoves b position (color p)))"

text \<open>\<^verbatim>\<open>moves.some((move) => move.equals(to))\<close>: equality of row and column.\<close>

definition position_equals :: "Position \<Rightarrow> Position \<Rightarrow> bool" where
  "position_equals p q \<longleftrightarrow> row p = row q \<and> col p = col q"

definition canAttack :: "Board \<Rightarrow> Position \<Rightarrow> Position \<Rightarrow> Piece \<Rightarrow> error + bool" where
  "canAttack b from to p =
     (case generateMoves b from p of
        Inl e \<Rightarrow> Inl e
      | Inr moves \<Rightarrow> Inr (list_ex (\<lambda>move. position_equals move to) moves))"

definition isPseudoLegal :: "Board \<Rightarrow> Position \<Rightarrow> Position \<Rightarrow> Piece \<Rightarrow> error + bool" where
  "isPseudoLegal b from to p =
     (case generateMoves b from p of
        Inl e \<Rightarrow> Inl e
      | Inr moves \<Rightarrow> Inr (list_ex (\<lambda>move. position_equals move to) moves))"

section \<open>MoveValidator (MoveValidator.ts)\<close>

datatype Side = Kingside | Queenside

text \<open>
  The loop of \<^verbatim>\<open>isKingInCheck\<close> over the opponent's pieces: it returns at the
  first piece that attacks the king, and an exception of \<^verbatim>\<open>canAttack\<close> ends it.
\<close>

fun anyCanAttack :: "Board \<Rightarrow> Position \<Rightarrow> (Piece \<times> Position) list \<Rightarrow> error + bool" where
  "anyCanAttack b kingPos [] = Inr False"
| "anyCanAttack b kingPos ((p, position) # rest) =
     (case canAttack b position kingPos p of
        Inl e \<Rightarrow> Inl e
      | Inr True \<Rightarrow> Inr True
      | Inr False \<Rightarrow> anyCanAttack b kingPos rest)"

definition isKingInCheck :: "Board \<Rightarrow> Color \<Rightarrow> error + bool" where
  "isKingInCheck b c =
     (case findPiece b KING c of
        None \<Rightarrow> Inr False
      | Some kingPos \<Rightarrow>
          (let opponentColor = (if c = WHITE then BLACK else WHITE) in
           anyCanAttack b kingPos (getPiecesOfColor b opponentColor)))"

text \<open>
  The loop over \<^verbatim>\<open>squaresKingPasses\<close> in \<^verbatim>\<open>canCastle\<close>: \<open>Inr True\<close> when
  the loop runs to its end, \<open>Inr False\<close> at the first square on which the relocated king
  is in check.
\<close>

fun kingPassesSafely :: "Board \<Rightarrow> Color \<Rightarrow> Position \<Rightarrow> Position list \<Rightarrow> error + bool" where
  "kingPassesSafely b c kingPos [] = Inr True"
| "kingPassesSafely b c kingPos (square # rest) =
     (case movePiece (clone_Board b) kingPos square of
        Inl e \<Rightarrow> Inl e
      | Inr clonedBoard \<Rightarrow>
          (case isKingInCheck clonedBoard c of
             Inl e \<Rightarrow> Inl e
           | Inr True \<Rightarrow> Inr False
           | Inr False \<Rightarrow> kingPassesSafely b c kingPos rest))"

definition canCastle :: "Board \<Rightarrow> Color \<Rightarrow> Side \<Rightarrow> error + bool" where
  "canCastle b c side =
     (let backRank = getBackRank c;
          kingCol = 4;
          kingPos = \<lparr>row = backRank, col = kingCol\<rparr> in
      case getPiece b kingPos of
        None \<Rightarrow> Inr False
      | Some king \<Rightarrow>
          if ptype king \<noteq> KING \<or> hasMoved king then Inr False
          else
            (let rookCol = (if side = Kingside then 7 else 0);
                 rookPos = \<lparr>row = backRank, col = rookCol\<rparr> in
             case getPiece b rookPos of
               None \<Rightarrow> Inr False
             | Some rook \<Rightarrow>
                 if ptype rook \<noteq> ROOK \<or> hasMoved rook then Inr False
                 else
                   (let squaresBetween =
                          (if side = Kingside
                           then [\<lparr>row = backRank, col = 5\<rparr>, \<lparr>row = backRank, col = 6\<rparr>]
                           else [\<lparr>row = backRank, col = 1\<rparr>, \<lparr>row = backRank, col = 2\<rparr>,
                                 \<lparr>row = backRank, col = 3\<rparr>]) in
                    if list_ex (\<lambda>square. \<not> isEmpty b square) squaresBetween then Inr False
                    else
                      (case isKingInCheck b c of
                         Inl e \<Rightarrow> Inl e
                       | Inr True \<Rightarrow> Inr False
                       | Inr False \<Rightarrow>
                           (let squaresKingPasses =
                                  (if side = Kingside
                                   then [\<lparr>row = backRank, col = 5\<rparr>, \<lparr>row = backRank, col = 6\<rparr>]
                                   else [\<lparr>row = backRank, col = 3\<rparr>, \<lparr>row = backRank, col = 2\<rparr>]) in
                            kingPassesSafely b c kingPos squaresKingPasses)))))"

definition isCastlingMove :: "Position \<Rightarrow> Position \<Rightarrow> Color \<Rightarrow> bool" where
  "isCastlingMove from to c =
     (let backRank = getBackRank c in
      row from = backRank \<and> col from = 4 \<and> row to = backRank \<and> (col to = 6 \<or> col to = 2))"

definition canEnPassant :: "Board \<Rightarrow> Position \<Rightarrow> Position \<Rightarrow> Color \<Rightarrow> Move \<Rightarrow> error + bool" where
  "canEnPassant b from to c lastMove =
     (if ptype (piece lastMove) \<noteq> PAWN then Inr False
      else
        (let lastMoveDistance = \<bar>row (mto lastMove) - row (mfrom lastMove)\<bar> in
         if lastMoveDistance \<noteq> 2 then Inr False
         else
           (let correctRank = (if c = WHITE then 3 else 4) in
            if row from \<noteq> correctRank then Inr False
            else if row (mto lastMove) \<noteq> row from \<or> \<bar>col (mto lastMove) - col from\<bar> \<noteq> 1
            then Inr False
            else
              (let direction = getPawnDirection c;
                   expectedToRow = row from + direction;
                   expectedToCol = col (mto lastMove) in
               if row to \<noteq> expectedToRow \<or> col to \<noteq> expectedToCol then Inr False
               else
                 (case movePiece (clone_Board b) from to of
                    Inl e \<Rightarrow> Inl e
                  | Inr b1 \<Rightarrow>
                      (case setPiece b1 (mto lastMove) None of
                         Inl e \<Rightarrow> Inl e
                       | Inr clonedBoard \<Rightarrow>
                           (case isKingInCheck clonedBoard c of
                              Inl e \<Rightarrow> Inl e
                            | Inr chk \<Rightarrow> Inr (\<not> chk))))))))"

definition isEnPassantMove :: "Board \<Rightarrow> Position \<Rightarrow> Position \<Rightarrow> Color \<Rightarrow> Move \<Rightarrow> bool" where
  "isEnPassantMove b from to c lastMove =
     (let direction = getPawnDirection c;
          isMovingDiagonally = (row to = row from + direction \<and> \<bar>col to - col from\<bar> = 1) in
      if \<not> isMovingDiagonally \<or> \<not> isEmpty b to then False
      else if ptype (piece lastMove) \<noteq> PAWN then False
      else
        (let lastMoveDistance = \<bar>row (mto lastMove) - row (mfrom lastMove)\<bar> in
         if lastMoveDistance \<noteq> 2 then False
         else row (mto lastMove) = row from \<and> \<bar>col (mto lastMove) - col from\<bar> = 1))"

definition isLegalMove :: "Board \<Rightarrow> Position \<Rightarrow> Position \<Rightarrow> Piece \<Rightarrow> Move option \<Rightarrow> error + bool" where
  "isLegalMove b from to p lastMove =
     (case isPseudoLegal b from to p of
        Inl e \<Rightarrow> Inl e
      | Inr False \<Rightarrow>
          if ptype p = KING \<and> \<not> hasMoved p \<and> isCastlingMove from to (color p)
          then canCastle b (color p) (if col to > col from then Kingside else Queenside)
          else
            (case lastMove of
               None \<Rightarrow> Inr False
             | Some lm \<Rightarrow>
                 if ptype p = PAWN \<and> isEnPassantMove b from to (color p) lm
                 then canEnPassant b from to (color p) lm
                 else Inr False)
      | Inr True \<Rightarrow>
          (case movePiece (clone_Board b) from to of
             Inl e \<Rightarrow> Inl e
           | Inr clonedBoard \<Rightarrow>
               (case isKingInCheck clonedBoard (color p) of
                  Inl e \<Rightarrow> Inl e
                | Inr chk \<Rightarrow> Inr (\<not> chk))))"

text \<open>The first loop of \<^verbatim>\<open>getLegalMoves\<close>: the pseudo-legal moves that are legal.\<close>

fun filterLegal :: "Board \<Rightarrow> Position \<Rightarrow> Piece \<Rightarrow> Move option \<Rightarrow> Position list \<Rightarrow> error + Position list" where
  "filterLegal b position p lastMove [] = Inr []"
| "filterLegal b position p lastMove (move # rest) =
     (case isLegalMove b position move p lastMove of
        Inl e \<Rightarrow> Inl e
      | Inr ok \<Rightarrow>
          (case filterLegal b position p lastMove rest of
             Inl e \<Rightarrow> Inl e
           | Inr ms \<Rightarrow> Inr (if ok then move # ms else ms)))"

text \<open>The last loop of \<^verbatim>\<open>getLegalMoves\<close>, over the two en-passant squares.\<close>

fun filterEnPassant :: "Board \<Rightarrow> Position \<Rightarrow> Color \<Rightarrow> Move \<Rightarrow> Position list \<Rightarrow> error + Position list" where
  "filterEnPassant b position c lastMove [] = Inr []"
| "filterEnPassant b position c lastMove (square # rest) =
     (case canEnPassant b position square c lastMove of
        Inl e \<Rightarrow> Inl e
      | Inr ok \<Rightarrow>
          (case filterEnPassant b position c lastMove rest of
             Inl e \<Rightarrow> Inl e
           | Inr ms \<Rightarrow> Inr (if ok then square # ms else ms)))"

definition castlingMoves :: "Board \<Rightarrow> Piece \<Rightarrow> error + Position list" where
  "castlingMoves b p =
     (if ptype p = KING \<and> \<not> hasMoved p then
        (let backRank = getBackRank (color p) in
         case canCastle b (color p) Kingside of
           Inl e \<Rightarrow> Inl e
         | Inr ks \<Rightarrow>
             (case canCastle b (color p) Queenside of
                Inl e \<Rightarrow> Inl e
              | Inr qs \<Rightarrow>
                  Inr ((if ks then [\<lparr>row = backRank, col = 6\<rparr>] else []) @
                       (if qs then [\<lparr>row = backRank, col = 2\<rparr>] else []))))
      else Inr [])"

text \<open>
  The array literal \<^verbatim>\<open>enPassantSquares\<close> constructs both positions, left diagonal
  first, before any of them is examined.
\<close>

definition enPassantMoves :: "Board \<Rightarrow> Position \<Rightarrow> Piece \<Rightarrow> Move option \<Rightarrow> error + Position list" where
  "enPassantMoves b position p lastMove =
     (case lastMove of
        None \<Rightarrow> Inr []
      | Some lm \<Rightarrow>
          if ptype p = PAWN then
            (let direction = getPawnDirection (color p) in
             case new_Position (row position + direction) (col position - 1) of
               Inl e \<Rightarrow> Inl e
             | Inr left \<Rightarrow>
                 (case new_Position (row position + direction) (col position + 1) of
                    Inl e \<Rightarrow> Inl e
                  | Inr right \<Rightarrow> filterEnPassant b position (color p) lm [left, right]))
          else Inr [])"

definition validator_getLegalMoves :: "Board \<Rightarrow> Position \<Rightarrow> Piece \<Rightarrow> Move option \<Rightarrow> error + Position list" where
  "validator_getLegalMoves b position p lastMove =
     (case generateMoves b position p of
        Inl e \<Rightarrow> Inl e
      | Inr pseudoLegalMoves \<Rightarrow>
          (case filterLegal b position p lastMove pseudoLegalMoves of
             Inl e \<Rightarrow> Inl e
           | Inr legalMoves \<Rightarrow>
               (case castlingMoves b p of
                  Inl e \<Rightarrow> Inl e
                | Inr castles \<Rightarrow>
                    (case enPassantMoves b position p lastMove of
                       Inl e \<Rightarrow> Inl e
                     | Inr eps \<Rightarrow> Inr (legalMoves @ castles @ eps)))))"

fun anyHasLegalMoves :: "Board \<Rightarrow> Move option \<Rightarrow> (Piece \<times> Position) list \<Rightarrow> error + bool" where
  "anyHasLegalMoves b lastMove [] = Inr False"
| "anyHasLegalMoves b lastMove ((p, position) # rest) =
     (case validator_getLegalMoves b position p lastMove of
        Inl e \<Rightarrow> Inl e
      | Inr legalMoves \<Rightarrow>
          if length legalMoves > 0 then Inr True else anyHasLegalMoves b lastMove rest)"

definition hasAnyLegalMoves :: "Board \<Rightarrow> Color \<Rightarrow> Move option \<Rightarrow> error + bool" where
  "hasAnyLegalMoves b c lastMove = anyHasLegalMoves b lastMove (getPiecesOfColor b c)"

text \<open>\<^verbatim>\<open>&&\<close> evaluates its right operand only when the left one is true.\<close>

definition isCheckmate :: "Board \<Rightarrow> Color \<Rightarrow> Move option \<Rightarrow> error + bool" where
  "isCheckmate b c lastMove =
     (case isKingInCheck b c of
        Inl e \<Rightarrow> Inl e
      | Inr False \<Rightarrow> Inr False
      | Inr True \<Rightarrow>
          (case hasAnyLegalMoves b c lastMove of
             Inl e \<Rightarrow> Inl e
           | Inr h \<Rightarrow> Inr (\<not> h)))"

definition isStalemate :: "Board \<Rightarrow> Color \<Rightarrow> Move option \<Rightarrow> error + bool" where
  "isStalemate b c lastMove =
     (case isKingInCheck b c of
        Inl e \<Rightarrow> Inl e
      | Inr True \<Rightarrow> Inr False
      | Inr False \<Rightarrow>
          (case hasAnyLegalMoves b c lastMove of
             Inl e \<Rightarrow> Inl e
           | Inr h \<Rightarrow> Inr (\<not> h)))"

section \<open>MoveHistory (MoveHistory.ts)\<close>

record HistoryEntry =
  move :: Move
  boardBeforeMove :: Board

type_synonym MoveHistory = "HistoryEntry list"

definition addMove :: "MoveHistory \<Rightarrow> Move \<Rightarrow> Board \<Rightarrow> MoveHistory" where
  "addMove h m b = h @ [\<lparr>move = m, boardBeforeMove = clone_Board b\<rparr>]"

text \<open>\<^verbatim>\<open>undo\<close> returns the popped entry, or null; the second component is the history left.\<close>

definition history_undo :: "MoveHistory \<Rightarrow> HistoryEntry option \<times> MoveHistory" where
  "history_undo h = (if length h = 0 then (None, h) else (Some (last h), butlast h))"

definition getLastMove :: "MoveHistory \<Rightarrow> Move option" where
  "getLastMove h = (if length h = 0 then None else Some (move (last h)))"

definition getAllMoves :: "MoveHistory \<Rightarrow> Move list" where
  "getAllMoves h = map move h"

definition getMoveCount :: "MoveHistory \<Rightarrow> nat" where
  "getMoveCount h = length h"

section \<open>Algebraic notation (types.ts, GameState.ts)\<close>

text \<open>The decimal digits of a natural number, for the template string of \<^verbatim>\<open>toAlgebraic\<close>.\<close>

fun decimal :: "nat \<Rightarrow> string" where
  "decimal n = (if n < 10 then [char_of (48 + n)] else decimal (n div 10) @ [char_of (48 + n mod 10)])"

declare decimal.simps [simp del]

definition number_toString :: "int \<Rightarrow> string" where
  "number_toString i = (if i < 0 then CHR ''-'' # decimal (nat (- i)) else decimal (nat i))"

text \<open>
  \<^verbatim>\<open>files[this.col]\<close> is \<^verbatim>\<open>undefined\<close> outside the array, which the template
  string prints as such.
\<close>

definition toAlgebraic :: "Position \<Rightarrow> string" where
  "toAlgebraic pos =
     (let rank = 8 - row pos;
          file = (if 0 \<le> col pos \<and> col pos < 8 then FILES ! nat (col pos) else ''undefined'')
      in file @ number_toString rank)"

definition pieceLetters :: "PieceType \<Rightarrow> string" where
  "pieceLetters t =
     (case t of KING \<Rightarrow> ''K'' | QUEEN \<Rightarrow> ''Q'' | ROOK \<Rightarrow> ''R'' | BISHOP \<Rightarrow> ''B''
      | KNIGHT \<Rightarrow> ''N'' | PAWN \<Rightarrow> [])"

definition getMoveNotation :: "Position \<Rightarrow> Position \<Rightarrow> Piece \<Rightarrow> MoveType \<Rightarrow> Piece option \<Rightarrow> string" where
  "getMoveNotation from to p mt captured =
     (if mt = CASTLE_KINGSIDE then ''O-O''
      else if mt = CASTLE_QUEENSIDE then ''O-O-O''
      else
        (let n1 = (if ptype p \<noteq> PAWN then pieceLetters (ptype p) else []);
             n2 = (if ptype p = PAWN \<and> captured \<noteq> None then n1 @ take 1 (toAlgebraic from) else n1);
             n3 = (if captured \<noteq> None \<or> mt = EN_PASSANT then n2 @ ''x'' else n2);
             n4 = n3 @ toAlgebraic to
         in if mt = PROMOTION then n4 @ ''=Q'' else n4))"

section \<open>GameState (GameState.ts)\<close>

text \<open>
  The validator of a game state is always bound to the state's current board (both are
  replaced together in \<^verbatim>\<open>undoMove\<close> and \<^verbatim>\<open>reset\<close>), so the state is the board,
  the history, the turn and the status.
\<close>

record GameState =
  board :: Board
  history :: MoveHistory
  currentTurn :: Color
  status :: GameStatus

definition new_GameState :: "error + GameState" where
  "new_GameState =
     (case new_Board of
        Inl e \<Rightarrow> Inl e
      | Inr b \<Rightarrow> Inr \<lparr>board = b, history = [], currentTurn = WHITE, status = ACTIVE\<rparr>)"

text \<open>
  The three private \<^verbatim>\<open>execute...\<close> methods change the live board step by step. Each
  returns the board it reached, together with the exception that interrupted it, if any.
\<close>

definition executeCastling :: "Board \<Rightarrow> Position \<Rightarrow> Position \<Rightarrow> Color \<Rightarrow> Board \<times> error option" where
  "executeCastling b kingFrom kingTo c =
     (let backRank = getBackRank c;
          isKingside = (col kingTo > col kingFrom) in
      case movePiece b kingFrom kingTo of
        Inl e \<Rightarrow> (b, Some e)
      | Inr b1 \<Rightarrow>
          (let rookFromCol = (if isKingside then 7 else 0);
               rookToCol = (if isKingside then 5 else 3) in
           case movePiece b1 \<lparr>row = backRank, col = rookFromCol\<rparr> \<lparr>row = backRank, col = rookToCol\<rparr> of
             Inl e \<Rightarrow> (b1, Some e)
           | Inr b2 \<Rightarrow> (b2, None)))"

definition executeEnPassant :: "Board \<Rightarrow> Position \<Rightarrow> Position \<Rightarrow> Move \<Rightarrow> Board \<times> error option" where
  "executeEnPassant b from to lastMove =
     (case movePiece b from to of
        Inl e \<Rightarrow> (b, Some e)
      | Inr b1 \<Rightarrow>
          (case setPiece b1 (mto lastMove) None of
             Inl e \<Rightarrow> (b1, Some e)
           | Inr b2 \<Rightarrow> (b2, None)))"

definition executePromotion :: "Board \<Rightarrow> Position \<Rightarrow> Position \<Rightarrow> PieceType option \<Rightarrow> Board \<times> error option" where
  "executePromotion b from to promoteTo =
     (case getPiece b from of
        None \<Rightarrow> (b, None)
      | Some p \<Rightarrow>
          (let promotionType = (case promoteTo of None \<Rightarrow> QUEEN | Some t \<Rightarrow> t);
               promotedPiece = \<lparr>ptype = promotionType, color = color p, hasMoved = True\<rparr> in
           case setPiece b from None of
             Inl e \<Rightarrow> (b, Some e)
           | Inr b1 \<Rightarrow>
               (case setPiece b1 to (Some promotedPiece) of
                  Inl e \<Rightarrow> (b1, Some e)
                | Inr b2 \<Rightarrow> (b2, None))))"

text \<open>
  \<^verbatim>\<open>updateStatus\<close> as a function of what it reads: the board, the side to move and the
  last move of the history.
\<close>

definition computeStatus :: "Board \<Rightarrow> Color \<Rightarrow> Move option \<Rightarrow> error + GameStatus" where
  "computeStatus b turn lastMove =
     (case isCheckmate b turn lastMove of
        Inl e \<Rightarrow> Inl e
      | Inr True \<Rightarrow> Inr CHECKMATE
      | Inr False \<Rightarrow>
          (case isStalemate b turn lastMove of
             Inl e \<Rightarrow> Inl e
           | Inr True \<Rightarrow> Inr STALEMATE
           | Inr False \<Rightarrow>
               (case isKingInCheck b turn of
                  Inl e \<Rightarrow> Inl e
                | Inr True \<Rightarrow> Inr CHECK
                | Inr False \<Rightarrow> Inr ACTIVE)))"

text \<open>The state after \<^verbatim>\<open>updateStatus\<close>, and the exception it raised, if any.\<close>

definition updateStatus :: "GameState \<Rightarrow> GameState \<times> error option" where
  "updateStatus s =
     (case computeStatus (board s) (currentTurn s) (getLastMove (history s)) of
        Inl e \<Rightarrow> (s, Some e)
      | Inr st \<Rightarrow> (s\<lparr>status := st\<rparr>, None))"

definition failure :: "string \<Rightarrow> MoveResult" where
  "failure msg = \<lparr>success = False, resMove = None, resError = Some msg, newStatus = None,
                  resCapturedPiece = None\<rparr>"

definition wrongTurnMessage :: "Color \<Rightarrow> string" where
  "wrongTurnMessage turn =
     ''It'' @ [CHR 0x27] @ ''s '' @ (if turn = WHITE then ''White'' else ''Black'') @ [CHR 0x27] @ ''s turn''"

text \<open>
  The branch of \<^verbatim>\<open>makeMove\<close> that classifies a legal move and changes the board:
  castling, en passant, promotion, or a plain relocation. It returns the move type, the
  board reached and the exception that interrupted the change, if any.
\<close>

definition classifyAndExecute ::
    "Board \<Rightarrow> Position \<Rightarrow> Position \<Rightarrow> Piece \<Rightarrow> Square \<Rightarrow> Move option \<Rightarrow> MoveType \<times> Board \<times> error option" where
  "classifyAndExecute b from to p captured lastMove =
     (if ptype p = KING \<and> \<bar>col to - col from\<bar> = 2 then
        (if col to > col from then CASTLE_KINGSIDE else CASTLE_QUEENSIDE,
         executeCastling b from to (color p))
      else if ptype p = PAWN \<and> col to \<noteq> col from \<and> captured = None \<and> lastMove \<noteq> None then
        (case lastMove of
           Some lm \<Rightarrow> (EN_PASSANT, executeEnPassant b from to lm)
         | None \<Rightarrow> (EN_PASSANT, b, None))
      else if ptype p = PAWN \<and> row to = getPawnPromotionRow (color p) then
        (PROMOTION, executePromotion b from to None)
      else
        (if captured \<noteq> None then CAPTURE else NORMAL,
         case movePiece b from to of
           Inl e \<Rightarrow> (b, Some e)
         | Inr b1 \<Rightarrow> (b1, None)))"

text \<open>
  The rest of \<^verbatim>\<open>makeMove\<close> once the move is known to be legal: snapshot, board change,
  move record, history, turn and status. The variable \<^verbatim>\<open>piece\<close> refers to the piece
  object on the board, so its \<^verbatim>\<open>hasMoved\<close> flag is already set by
  \<^verbatim>\<open>movePiece\<close> when the move record clones it; a promotion takes the pawn off the
  board without touching the flag. The argument \<open>now\<close> is the value of
  \<^verbatim>\<open>Date.now()\<close>.
\<close>

definition executeLegalMove :: "GameState \<Rightarrow> int \<Rightarrow> Position \<Rightarrow> Position \<Rightarrow> Piece \<Rightarrow> GameState \<times> (error + MoveResult)" where
  "executeLegalMove s now from to p =
     (let boardBeforeMove = clone_Board (board s);
          captured = getPiece (board s) to
      in case classifyAndExecute (board s) from to p captured (getLastMove (history s)) of
           (mt, b1, Some e) \<Rightarrow> (s\<lparr>board := b1\<rparr>, Inl e)
         | (mt, b1, None) \<Rightarrow>
             (let m = \<lparr>mfrom = from, mto = to,
                       piece = clone_Piece (p\<lparr>hasMoved := (if mt = PROMOTION then hasMoved p else True)\<rparr>),
                       capturedPiece = map_option clone_Piece captured,
                       moveType = mt,
                       timestamp = now,
                       notationStr = getMoveNotation from to p mt captured,
                       promotionPiece = None\<rparr>;
                  s1 = s\<lparr>board := b1,
                         history := addMove (history s) m boardBeforeMove,
                         currentTurn := getOppositeColor (currentTurn s)\<rparr>
              in case updateStatus s1 of
                   (s2, Some e) \<Rightarrow> (s2, Inl e)
                 | (s2, None) \<Rightarrow>
                     (s2, Inr \<lparr>success = True, resMove = Some m, resError = None,
                              newStatus = Some (status s2),
                              resCapturedPiece = captured\<rparr>)))"

text \<open>
  \<^verbatim>\<open>makeMove\<close> returns the state in which the call leaves the game, and either the
  result it returns or the exception that escapes from it.
\<close>

definition makeMove :: "GameState \<Rightarrow> int \<Rightarrow> Position \<Rightarrow> Position \<Rightarrow> GameState \<times> (error + MoveResult)" where
  "makeMove s now from to =
     (case getPiece (board s) from of
        None \<Rightarrow> (s, Inr (failure ''No piece at the starting position''))
      | Some p \<Rightarrow>
          if color p \<noteq> currentTurn s then (s, Inr (failure (wrongTurnMessage (currentTurn s))))
          else if status s = CHECKMATE \<or> status s = STALEMATE
          then (s, Inr (failure ''Game is already over''))
          else
            (case isLegalMove (board s) from to p (getLastMove (history s)) of
               Inl e \<Rightarrow> (s, Inl e)
             | Inr False \<Rightarrow> (s, Inr (failure ''Illegal move''))
             | Inr True \<Rightarrow> executeLegalMove s now from to p))"

definition undoMove :: "GameState \<Rightarrow> GameState \<times> (error + bool)" where
  "undoMove s =
     (case history_undo (history s) of
        (None, h) \<Rightarrow> (s\<lparr>history := h\<rparr>, Inr False)
      | (Some entry, h) \<Rightarrow>
          (let s1 = s\<lparr>board := clone_Board (boardBeforeMove entry),
                     history := h,
                     currentTurn := getOppositeColor (currentTurn s)\<rparr>
           in case updateStatus s1 of
                (s2, Some e) \<Rightarrow> (s2, Inl e)
              | (s2, None) \<Rightarrow> (s2, Inr True)))"

definition getLegalMoves :: "GameState \<Rightarrow> Position \<Rightarrow> error + Position list" where
  "getLegalMoves s position =
     (case getPiece (board s) position of
        None \<Rightarrow> Inr []
      | Some p \<Rightarrow>
          if color p \<noteq> currentTurn s then Inr []
          else validator_getLegalMoves (board s) position p (getLastMove (history s)))"

section \<open>Reachable states and example positions\<close>

text \<open>
  The state built by \<^verbatim>\<open>new GameState()\<close>; the constructor raises nothing (lemma
  \<open>new_GameState_initialState\<close>), so the second branch is never taken.
\<close>

definition initialState :: GameState where
  "initialState =
     (case new_GameState of
        Inr s \<Rightarrow> s
      | Inl e \<Rightarrow> \<lparr>board = createEmptyBoard, history = [], currentTurn = WHITE, status = ACTIVE\<rparr>)"

text \<open>
  The states a game reaches: the initial one, and those in which a call of
  \<^verbatim>\<open>makeMove\<close> or \<^verbatim>\<open>undoMove\<close> that returned (with any result) leaves the game.
  The arguments of \<^verbatim>\<open>makeMove\<close> are \<^verbatim>\<open>Position\<close> objects, hence on the board.
\<close>

inductive reachable :: "GameState \<Rightarrow> bool" where
  reachable_new: "new_GameState = Inr s \<Longrightarrow> reachable s"
| reachable_makeMove:
    "reachable s \<Longrightarrow> board_isValidPosition from \<Longrightarrow> board_isValidPosition to \<Longrightarrow>
     makeMove s now from to = (s', Inr r) \<Longrightarrow> reachable s'"
| reachable_undoMove:
    "reachable s \<Longrightarrow> undoMove s = (s', Inr ok) \<Longrightarrow> reachable s'"

text \<open>
  A sequence of \<^verbatim>\<open>makeMove\<close> calls on one game, as a test or the user interface
  issues them: the outcome of every call in order, and the state left by the last one. A
  call that raises leaves its state to the next call.
\<close>

definition playMoves :: "GameState \<Rightarrow> int \<Rightarrow> (Position \<times> Position) list \<Rightarrow> (error + MoveResult) list \<times> GameState" where
  "playMoves s now ms =
     foldl (\<lambda>(rs, s0) (from, to). case makeMove s0 now from to of (s1, r) \<Rightarrow> (rs @ [r], s1)) ([], s) ms"

text \<open>What a caller reads off an outcome: the exception, or the success flag and the error message.\<close>

definition outcome :: "error + MoveResult \<Rightarrow> error + bool \<times> string option" where
  "outcome r = map_sum id (\<lambda>res. (success res, resError res)) r"

text \<open>The moves 1. e4 Nc6 2. e5 f5, after which the white pawn on e5 can capture en passant on f6.\<close>

definition enPassantOpening :: "(Position \<times> Position) list" where
  "enPassantOpening =
     [(\<lparr>row = 6, col = 4\<rparr>, \<lparr>row = 4, col = 4\<rparr>), (\<lparr>row = 0, col = 1\<rparr>, \<lparr>row = 2, col = 2\<rparr>),
      (\<lparr>row = 4, col = 4\<rparr>, \<lparr>row = 3, col = 4\<rparr>), (\<lparr>row = 1, col = 5\<rparr>, \<lparr>row = 3, col = 5\<rparr>)]"

definition enPassantGame :: GameState where
  "enPassantGame = snd (playMoves initialState 0 enPassantOpening)"

text \<open>
  Two predicates for the invariant of the history. The piece recorded in a move stands on
  the move's destination, unless it is a pawn that reached its promotion row (then the new
  queen stands there).
\<close>

definition pieceOfMoveStands :: "Move \<Rightarrow> Board \<Rightarrow> bool" where
  "pieceOfMoveStands m b \<longleftrightarrow>
     (\<not> (ptype (piece m) = PAWN \<and> row (mto m) = getPawnPromotionRow (color (piece m)))
      \<longrightarrow> getPiece b (mto m) = Some (piece m))"

text \<open>
  The last move was made by the side not to move and its piece stands on the board; the
  same holds for every earlier move and the snapshot taken before the move after it.
\<close>

definition historyInvariant :: "MoveHistory \<Rightarrow> Board \<Rightarrow> Color \<Rightarrow> bool" where
  "historyInvariant h b turn \<longleftrightarrow>
     (case getLastMove h of
        None \<Rightarrow> True
      | Some lm \<Rightarrow> color (piece lm) \<noteq> turn \<and> pieceOfMoveStands lm b)
   \<and> (\<forall>i. Suc i < length h \<longrightarrow>
          color (piece (move (h ! i))) \<noteq> color (piece (move (h ! Suc i)))
        \<and> pieceOfMoveStands (move (h ! i)) (boardBeforeMove (h ! Suc i)))"

section \<open>The castling conditions in the words of the specification\<close>

definition kingHome :: "Color \<Rightarrow> Position" where
  "kingHome c = \<lparr>row = getBackRank c, col = 4\<rparr>"

definition rookHome :: "Color \<Rightarrow> Side \<Rightarrow> Position" where
  "rookHome c side = \<lparr>row = getBackRank c, col = (if side = Kingside then 7 else 0)\<rparr>"

text \<open>The squares of the back rank strictly between the king's file and the rook's file.\<close>

definition squaresStrictlyBetween :: "Color \<Rightarrow> Side \<Rightarrow> Position list" where
  "squaresStrictlyBetween c side =
     map (\<lambda>k. \<lparr>row = getBackRank c, col = k\<rparr>)
       (filter (\<lambda>k. min (col (kingHome c)) (col (rookHome c side)) < k
                    \<and> k < max (col (kingHome c)) (col (rookHome c side))) [0..7])"

text \<open>The squares the king transits: one step, then two steps toward the rook.\<close>

definition kingTransitSquares :: "Color \<Rightarrow> Side \<Rightarrow> Position list" where
  "kingTransitSquares c side =
     (let step = (if side = Kingside then 1 else - 1) in
      [\<lparr>row = getBackRank c, col = 4 + step\<rparr>, \<lparr>row = getBackRank c, col = 4 + 2 * step\<rparr>])"

text \<open>
  A simulated relocation of the king alone to \<open>square\<close> does not leave the king of
  colour \<open>c\<close> in check.
\<close>

definition relocatedKingSafe :: "Board \<Rightarrow> Color \<Rightarrow> Position \<Rightarrow> bool" where
  "relocatedKingSafe b c square =
     (case movePiece (clone_Board b) (kingHome c) square of
        Inl e \<Rightarrow> False
      | Inr b' \<Rightarrow> isKingInCheck b' c = Inr False)"

text \<open>
  The conditions as the claim words them: the king and the rook on the home squares are
  those of the castling colour.
\<close>

definition castlingConditionsClaimed :: "Board \<Rightarrow> Color \<Rightarrow> Side \<Rightarrow> bool" where
  "castlingConditionsClaimed b c side \<longleftrightarrow>
     (case getPiece b (kingHome c) of
        None \<Rightarrow> False
      | Some king \<Rightarrow> ptype king = KING \<and> color king = c \<and> \<not> hasMoved king)
   \<and> (case getPiece b (rookHome c side) of
        None \<Rightarrow> False
      | Some rook \<Rightarrow> ptype rook = ROOK \<and> color rook = c \<and> \<not> hasMoved rook)
   \<and> list_all (isEmpty b) (squaresStrictlyBetween c side)
   \<and> isKingInCheck b c = Inr False
   \<and> list_all (relocatedKingSafe b c) (kingTransitSquares c side)"

text \<open>The same conditions with a king and a rook of either colour on the home squares.\<close>

definition castlingConditions :: "Board \<Rightarrow> Color \<Rightarrow> Side \<Rightarrow> bool" where
  "castlingConditions b c side \<longleftrightarrow>
     (case getPiece b (kingHome c) of
        None \<Rightarrow> False
      | Some king \<Rightarrow> ptype king = KING \<and> \<not> hasMoved king)
   \<and> (case getPiece b (rookHome c side) of
        None \<Rightarrow> False
      | Some rook \<Rightarrow> ptype rook = ROOK \<and> \<not> hasMoved rook)
   \<and> list_all (isEmpty b) (squaresStrictlyBetween c side)
   \<and> isKingInCheck b c = Inr False
   \<and> list_all (relocatedKingSafe b c) (kingTransitSquares c side)"

text \<open>
  A board with an unmoved black king on e1 and an unmoved black rook on h1, as
  \<^verbatim>\<open>setPiece\<close> builds it from an empty board.
\<close>

definition blackPiecesOnWhiteHome :: Board where
  "blackPiecesOnWhiteHome =
     createEmptyBoard
       (\<lparr>row = 7, col = 4\<rparr> := Some \<lparr>ptype = KING, color = BLACK, hasMoved = False\<rparr>,
        \<lparr>row = 7, col = 7\<rparr> := Some \<lparr>ptype = ROOK, color = BLACK, hasMoved = False\<rparr>)"

text \<open>White king e1 and rook h1, both unmoved, and the black king on e8.\<close>

definition whiteCanCastleBoard :: Board where
  "whiteCanCastleBoard =
     createEmptyBoard
       (\<lparr>row = 7, col = 4\<rparr> := Some \<lparr>ptype = KING, color = WHITE, hasMoved = False\<rparr>,
        \<lparr>row = 7, col = 7\<rparr> := Some \<lparr>ptype = ROOK, color = WHITE, hasMoved = False\<rparr>,
        \<lparr>row = 0, col = 4\<rparr> := Some \<lparr>ptype = KING, color = BLACK, hasMoved = True\<rparr>)"

section \<open>Verified properties\<close>

subsection \<open>Pieces and boards are values\<close>

lemma clone_Piece_id: "clone_Piece p = p"
  by (simp add: clone_Piece_def)

lemma map_option_clone_Piece: "map_option clone_Piece sq = sq"
  by (cases sq) (simp_all add: clone_Piece_id)

lemma clone_Board_id: "clone_Board b = b"
proof (rule ext)
  fix pos show "clone_Board b pos = b pos"
    by (cases "b pos") (simp_all add: clone_Board_def clone_Piece_id)
qed

lemma getPiece_setPiece:
  "setPiece b pos sq = Inr b' \<Longrightarrow> getPiece b' q = (if q = pos then sq else getPiece b q)"
  by (auto simp: setPiece_def getPiece_def split: if_splits)

lemma movePiece_Inr:
  assumes "movePiece b from to = Inr b'"
  shows "\<exists>p. getPiece b from = Some p
           \<and> (\<forall>q. getPiece b' q =
                  (if q = from then None else if q = to then Some (p\<lparr>hasMoved := True\<rparr>)
                   else getPiece b q))"
  using assms
  by (auto simp: movePiece_def setPiece_def getPiece_def split: if_splits option.splits)

lemma position_equals_iff: "position_equals (p::Position) q \<longleftrightarrow> p = q"
  by (cases p, cases q) (auto simp: position_equals_def)

lemma new_Position_Inr: "new_Position r c = Inr pos \<Longrightarrow> pos = \<lparr>row = r, col = c\<rparr>"
  by (auto simp: new_Position_def split: if_splits)

text \<open>
  Where the model writes a position as a record after \<^verbatim>\<open>isValidPosition\<close> has been
  asked, the constructor of the source does not throw.
\<close>

lemma new_Position_valid:
  "isValidPosition r c \<Longrightarrow> new_Position r c = Inr \<lparr>row = r, col = c\<rparr>"
  by (auto simp: new_Position_def isValidPosition_def BOARD_SIZE_def)

text \<open>The loop of \<^verbatim>\<open>generateSlidingMoves\<close> is only entered with non-zero directions.\<close>

lemma DIRECTIONS_nonzero:
  "\<forall>d \<in> set (DIRECTIONS_ROOK @ DIRECTIONS_BISHOP). drow d \<noteq> 0 \<or> dcol d \<noteq> 0"
  by (simp add: DIRECTIONS_ROOK_def DIRECTIONS_BISHOP_def)


subsection \<open>The initial state\<close>

lemma initialState_form:
  "\<exists>b. new_Board = Inr b
      \<and> initialState = \<lparr>board = b, history = [], currentTurn = WHITE, status = ACTIVE\<rparr>"
proof -
  have "case new_Board of Inl e \<Rightarrow> False | Inr b \<Rightarrow> True"
    by code_simp
  then obtain b where b: "new_Board = Inr b"
    by (auto split: sum.splits)
  have "initialState = \<lparr>board = b, history = [], currentTurn = WHITE, status = ACTIVE\<rparr>"
    unfolding initialState_def new_GameState_def b by simp
  with b show ?thesis by blast
qed

lemma new_GameState_initialState: "new_GameState = Inr initialState"
proof -
  from initialState_form obtain b where b: "new_Board = Inr b"
    and i: "initialState = \<lparr>board = b, history = [], currentTurn = WHITE, status = ACTIVE\<rparr>"
    by blast
  show ?thesis unfolding new_GameState_def b i by simp
qed

lemma initialState_fields:
  "history initialState = []" "currentTurn initialState = WHITE" "status initialState = ACTIVE"
proof -
  from initialState_form obtain b where
    i: "initialState = \<lparr>board = b, history = [], currentTurn = WHITE, status = ACTIVE\<rparr>"
    by blast
  show "history initialState = []" "currentTurn initialState = WHITE" "status initialState = ACTIVE"
    unfolding i by simp_all
qed

subsection \<open>The shape of a call of makeMove or undoMove that returns\<close>

lemma updateStatus_None:
  "updateStatus s1 = (s2, None) \<Longrightarrow>
     \<exists>st. computeStatus (board s1) (currentTurn s1) (getLastMove (history s1)) = Inr st
          \<and> s2 = s1\<lparr>status := st\<rparr>"
  by (auto simp: updateStatus_def split: sum.splits)

lemma executeLegalMove_Inr:
  assumes "executeLegalMove s now from to p = (s', Inr r)"
  shows "\<exists>mt b1 m st.
           classifyAndExecute (board s) from to p (getPiece (board s) to) (getLastMove (history s))
             = (mt, b1, None)
         \<and> m = \<lparr>mfrom = from, mto = to,
                 piece = p\<lparr>hasMoved := (if mt = PROMOTION then hasMoved p else True)\<rparr>,
                 capturedPiece = getPiece (board s) to,
                 moveType = mt, timestamp = now,
                 notationStr = getMoveNotation from to p mt (getPiece (board s) to),
                 promotionPiece = None\<rparr>
         \<and> computeStatus b1 (getOppositeColor (currentTurn s)) (Some m) = Inr st
         \<and> s' = \<lparr>board = b1,
                  history = history s @ [\<lparr>move = m, boardBeforeMove = board s\<rparr>],
                  currentTurn = getOppositeColor (currentTurn s),
                  status = st\<rparr>
         \<and> r = \<lparr>success = True, resMove = Some m, resError = None, newStatus = Some st,
                 resCapturedPiece = getPiece (board s) to\<rparr>"
proof -
  obtain mt b1 eo where
    c: "classifyAndExecute (board s) from to p (getPiece (board s) to) (getLastMove (history s))
          = (mt, b1, eo)"
    by (metis prod_cases3)
  show ?thesis
  proof (cases eo)
    case (Some e)
    with assms c show ?thesis
      by (simp add: executeLegalMove_def Let_def)
  next
    case None
    let ?m = "\<lparr>mfrom = from, mto = to,
                 piece = p\<lparr>hasMoved := (if mt = PROMOTION then hasMoved p else True)\<rparr>,
                 capturedPiece = getPiece (board s) to,
                 moveType = mt, timestamp = now,
                 notationStr = getMoveNotation from to p mt (getPiece (board s) to),
                 promotionPiece = None\<rparr>"
    let ?s1 = "s\<lparr>board := b1, history := history s @ [\<lparr>move = ?m, boardBeforeMove = board s\<rparr>],
                  currentTurn := getOppositeColor (currentTurn s)\<rparr>"
    obtain s2 eo2 where u: "updateStatus ?s1 = (s2, eo2)"
      by (cases "updateStatus ?s1") auto
    have eq: "executeLegalMove s now from to p =
              (case updateStatus ?s1 of (s2, Some e) \<Rightarrow> (s2, Inl e)
               | (s2, None) \<Rightarrow> (s2, Inr \<lparr>success = True, resMove = Some ?m, resError = None,
                              newStatus = Some (status s2), resCapturedPiece = getPiece (board s) to\<rparr>))"
      using c None
      by (simp add: executeLegalMove_def Let_def clone_Board_id clone_Piece_id addMove_def
            map_option_clone_Piece)
    show ?thesis
    proof (cases eo2)
      case (Some e)
      with assms eq u show ?thesis by simp
    next
      case n2: None
      from updateStatus_None [OF u [unfolded n2]] obtain st where
        st: "computeStatus b1 (getOppositeColor (currentTurn s)) (Some ?m) = Inr st"
        and s2: "s2 = ?s1\<lparr>status := st\<rparr>"
        by (auto simp: getLastMove_def)
      from assms eq u n2 s2 have "s' = ?s1\<lparr>status := st\<rparr>"
        and "r = \<lparr>success = True, resMove = Some ?m, resError = None,
                              newStatus = Some st, resCapturedPiece = getPiece (board s) to\<rparr>"
        by auto
      with c None st show ?thesis
        by auto
    qed
  qed
qed

lemma makeMove_success:
  assumes "makeMove s now from to = (s', Inr r)" and "success r"
  shows "\<exists>p. getPiece (board s) from = Some p \<and> color p = currentTurn s
            \<and> status s \<noteq> CHECKMATE \<and> status s \<noteq> STALEMATE
            \<and> isLegalMove (board s) from to p (getLastMove (history s)) = Inr True
            \<and> executeLegalMove s now from to p = (s', Inr r)"
  using assms
  by (auto simp: makeMove_def failure_def split: option.splits if_splits sum.splits bool.splits)

lemma makeMove_Inr_cases:
  assumes "makeMove s now from to = (s', Inr r)"
  shows "s' = s \<or> (\<exists>p. executeLegalMove s now from to p = (s', Inr r))"
  using assms
  by (auto simp: makeMove_def split: option.splits if_splits sum.splits bool.splits)



subsection \<open>Board.movePiece with equal source and destination\<close>

text \<open>
  Claim C10. For every board and every occupied position \<open>p\<close> on the board,
  \<^verbatim>\<open>movePiece(p, p)\<close> returns normally and leaves the square \<open>p\<close> empty: the piece is
  written to \<open>p\<close> and the source square, which is the same square, is cleared afterwards.
  Every other square keeps its content.
\<close>

theorem movePiece_same_square_clears:
  assumes "board_isValidPosition p" and "getPiece b p = Some x"
  shows "\<exists>b'. movePiece b p p = Inr b' \<and> getPiece b' p = None \<and> isEmpty b' p
            \<and> (\<forall>q. q \<noteq> p \<longrightarrow> getPiece b' q = getPiece b q)"
  using assms by (simp add: movePiece_def setPiece_def getPiece_def isEmpty_def)

theorem movePiece_same_square_clears_witness:
  "board_isValidPosition \<lparr>row = 6, col = 4\<rparr>
   \<and> getPiece (board initialState) \<lparr>row = 6, col = 4\<rparr> = Some \<lparr>ptype = PAWN, color = WHITE, hasMoved = False\<rparr>
   \<and> (case movePiece (board initialState) \<lparr>row = 6, col = 4\<rparr> \<lparr>row = 6, col = 4\<rparr> of
         Inl e \<Rightarrow> False
       | Inr b' \<Rightarrow> getPiece b' \<lparr>row = 6, col = 4\<rparr> = None \<and> isEmpty b' \<lparr>row = 6, col = 4\<rparr>)"
proof -
  have v: "board_isValidPosition \<lparr>row = 6, col = 4\<rparr>"
    by (simp add: board_isValidPosition_def BOARD_SIZE_def)
  have g: "getPiece (board initialState) \<lparr>row = 6, col = 4\<rparr>
             = Some \<lparr>ptype = PAWN, color = WHITE, hasMoved = False\<rparr>"
    by code_simp
  from movePiece_same_square_clears [OF v g] v g show ?thesis
    by auto
qed

subsection \<open>Checkmate and stalemate\<close>

text \<open>
  Claim C9. For every board, colour and optional last move, \<^verbatim>\<open>isCheckmate\<close> and
  \<^verbatim>\<open>isStalemate\<close> never both return true: the first returns true only when
  \<^verbatim>\<open>isKingInCheck\<close> does, the second only when it does not.
\<close>

theorem checkmate_stalemate_exclusive:
  "\<not> (isCheckmate b c lastMove = Inr True \<and> isStalemate b c lastMove = Inr True)"
  by (auto simp: isCheckmate_def isStalemate_def split: sum.splits bool.splits)

subsection \<open>Rejected moves\<close>

text \<open>
  Claim C3. Whenever \<^verbatim>\<open>makeMove\<close> returns a result whose \<^verbatim>\<open>success\<close> is false, the
  state it leaves is the state it was called in: board, history, turn and status.
\<close>

theorem rejected_makeMove_unchanged:
  assumes "makeMove s now from to = (s', Inr r)" and "\<not> success r"
  shows "s' = s"
proof -
  from makeMove_Inr_cases [OF assms(1)] show ?thesis
  proof
    assume "s' = s"
    then show ?thesis .
  next
    assume "\<exists>p. executeLegalMove s now from to p = (s', Inr r)"
    then obtain p where "executeLegalMove s now from to p = (s', Inr r)" ..
    from executeLegalMove_Inr [OF this] have "success r"
      by auto
    with assms(2) show ?thesis by simp
  qed
qed

theorem rejected_makeMove_unchanged_witness:
  "fst (makeMove initialState 0 \<lparr>row = 6, col = 4\<rparr> \<lparr>row = 3, col = 4\<rparr>) = initialState
   \<and> (case snd (makeMove initialState 0 \<lparr>row = 6, col = 4\<rparr> \<lparr>row = 3, col = 4\<rparr>) of
         Inl e \<Rightarrow> False
       | Inr r \<Rightarrow> \<not> success r \<and> resError r = Some ''Illegal move'')"
proof -
  let ?m = "makeMove initialState 0 \<lparr>row = 6, col = 4\<rparr> \<lparr>row = 3, col = 4\<rparr>"
  have ev: "case snd ?m of Inl e \<Rightarrow> False
            | Inr r \<Rightarrow> \<not> success r \<and> resError r = Some ''Illegal move''"
    by code_simp
  then obtain r where r: "snd ?m = Inr r" "\<not> success r"
    by (cases "snd ?m") auto
  have "?m = (fst ?m, Inr r)"
    using r(1) by (simp add: prod_eq_iff)
  from rejected_makeMove_unchanged [OF this r(2)] ev show ?thesis
    by simp
qed

subsection \<open>Undo after a successful move\<close>



subsection \<open>Destinations of generated moves\<close>

lemma slide_target:
  "q \<in> set (slide b c d r k) \<Longrightarrow> (case getPiece b q of None \<Rightarrow> True | Some t \<Rightarrow> color t \<noteq> c)"
proof (induction b c d r k rule: slide.induct)
  case (1 b c direction currentRow currentCol)
  show ?case
  proof (cases "isValidPosition currentRow currentCol \<and> (drow direction \<noteq> 0 \<or> dcol direction \<noteq> 0)")
    case False
    with "1.prems" show ?thesis
      by (simp add: slide.simps [of b c direction currentRow currentCol])
  next
    case True
    let ?t = "\<lparr>row = currentRow, col = currentCol\<rparr>"
    show ?thesis
    proof (cases "getPiece b ?t")
      case None
      with True "1.prems" have "q = ?t \<or> q \<in> set (slide b c direction (currentRow + drow direction) (currentCol + dcol direction))"
        by (simp add: slide.simps [of b c direction currentRow currentCol])
      then show ?thesis
      proof
        assume "q = ?t" with None show ?thesis by simp
      next
        assume "q \<in> set (slide b c direction (currentRow + drow direction) (currentCol + dcol direction))"
        with "1.IH" [OF True refl None] show ?thesis by simp
      qed
    next
      case (Some tp)
      with True "1.prems" show ?thesis
        by (simp add: slide.simps [of b c direction currentRow currentCol] split: if_splits)
    qed
  qed
qed


lemma offsetMoves_target:
  "q \<in> set (offsetMoves b position c dirs) \<Longrightarrow>
     (case getPiece b q of None \<Rightarrow> True | Some t \<Rightarrow> color t \<noteq> c)"
  by (auto simp: offsetMoves_def Let_def split: if_splits option.splits)

lemma pawnCaptures_target:
  "q \<in> set (pawnCaptures b position c dirs) \<Longrightarrow>
     (case getPiece b q of None \<Rightarrow> True | Some t \<Rightarrow> color t \<noteq> c)"
  by (auto simp: pawnCaptures_def Let_def split: if_splits option.splits)

lemma generatePawnMoves_not_own:
  assumes "generatePawnMoves b position c = Inr moves" and "q \<in> set moves"
  shows "case getPiece b q of None \<Rightarrow> True | Some t \<Rightarrow> color t \<noteq> c"
proof -
  from assms(1) obtain fwd where
    m: "moves = fwd @ pawnCaptures b position c
           [\<lparr>drow = getPawnDirection c, dcol = -1\<rparr>, \<lparr>drow = getPawnDirection c, dcol = 1\<rparr>]"
    and f: "\<forall>x \<in> set fwd. getPiece b x = None"
    by (auto simp: generatePawnMoves_def Let_def isEmpty_def split: sum.splits if_splits)
  from assms(2) m consider "q \<in> set fwd"
    | "q \<in> set (pawnCaptures b position c
           [\<lparr>drow = getPawnDirection c, dcol = -1\<rparr>, \<lparr>drow = getPawnDirection c, dcol = 1\<rparr>])"
    by auto
  then show ?thesis
  proof cases
    case 1
    with f show ?thesis by simp
  next
    case 2
    then show ?thesis by (rule pawnCaptures_target)
  qed
qed

lemma generateSlidingMoves_target:
  assumes "q \<in> set (generateSlidingMoves b position c dirs)"
  shows "case getPiece b q of None \<Rightarrow> True | Some t \<Rightarrow> color t \<noteq> c"
proof -
  from assms obtain d where
    "q \<in> set (slide b c d (row position + drow d) (col position + dcol d))"
    by (auto simp: generateSlidingMoves_def)
  then show ?thesis by (rule slide_target)
qed


text \<open>No generated destination holds a piece of the mover's colour.\<close>

lemma generateMoves_not_own:
  assumes "generateMoves b position p = Inr moves" and "q \<in> set moves"
  shows "case getPiece b q of None \<Rightarrow> True | Some t \<Rightarrow> color t \<noteq> color p"
proof (cases "ptype p")
  case PAWN
  with assms have "generatePawnMoves b position (color p) = Inr moves"
    by (simp add: generateMoves_def)
  from generatePawnMoves_not_own [OF this assms(2)] show ?thesis .
next
  case ROOK
  with assms have "q \<in> set (generateSlidingMoves b position (color p) DIRECTIONS_ROOK)"
    by (auto simp: generateMoves_def generateRookMoves_def)
  then show ?thesis by (rule generateSlidingMoves_target)
next
  case KNIGHT
  with assms have "q \<in> set (offsetMoves b position (color p) DIRECTIONS_KNIGHT)"
    by (auto simp: generateMoves_def generateKnightMoves_def)
  then show ?thesis by (rule offsetMoves_target)
next
  case BISHOP
  with assms have "q \<in> set (generateSlidingMoves b position (color p) DIRECTIONS_BISHOP)"
    by (auto simp: generateMoves_def generateBishopMoves_def)
  then show ?thesis by (rule generateSlidingMoves_target)
next
  case QUEEN
  with assms have "q \<in> set (generateSlidingMoves b position (color p) DIRECTIONS_ROOK)
                 \<or> q \<in> set (generateSlidingMoves b position (color p) DIRECTIONS_BISHOP)"
    by (auto simp: generateMoves_def generateQueenMoves_def)
  then show ?thesis by (auto intro: generateSlidingMoves_target)
next
  case KING
  with assms have "q \<in> set (offsetMoves b position (color p) DIRECTIONS_KING)"
    by (auto simp: generateMoves_def generateKingMoves_def)
  then show ?thesis by (rule offsetMoves_target)
qed

lemma isPseudoLegal_not_own:
  assumes "isPseudoLegal b from to p = Inr True"
  shows "case getPiece b to of None \<Rightarrow> True | Some t \<Rightarrow> color t \<noteq> color p"
proof -
  from assms obtain moves where "generateMoves b from p = Inr moves" and "to \<in> set moves"
    by (auto simp: isPseudoLegal_def list_ex_iff position_equals_iff split: sum.splits)
  then show ?thesis by (rule generateMoves_not_own)
qed


lemma king_step_cols:
  assumes "q \<in> set (generateKingMoves b position c)"
  shows "\<bar>col q - col position\<bar> \<le> 1"
proof -
  from assms obtain d where d: "d \<in> set DIRECTIONS_KING"
    and q: "q = \<lparr>row = row position + drow d, col = col position + dcol d\<rparr>"
    by (auto simp: generateKingMoves_def offsetMoves_def Let_def split: if_splits option.splits)
  from d have "\<bar>dcol d\<bar> \<le> 1"
    by (auto simp: DIRECTIONS_KING_def)
  with q show ?thesis by simp
qed

lemma king_two_cols_not_pseudoLegal:
  assumes "ptype p = KING" and "\<bar>col to - col from\<bar> = 2"
  shows "isPseudoLegal b from to p \<noteq> Inr True"
proof
  assume "isPseudoLegal b from to p = Inr True"
  with assms(1) have "to \<in> set (generateKingMoves b from (color p))"
    by (auto simp: isPseudoLegal_def generateMoves_def list_ex_iff position_equals_iff)
  from king_step_cols [OF this] assms(2) show False by simp
qed

subsection \<open>Legal moves that are not pseudo-legal\<close>

lemma isLegalMove_king_two_cols:
  assumes "isLegalMove b from to p lastMove = Inr True"
    and "ptype p = KING" and "\<bar>col to - col from\<bar> = 2"
  shows "isCastlingMove from to (color p)"
proof -
  from king_two_cols_not_pseudoLegal [OF assms(2,3)]
  have "isPseudoLegal b from to p \<noteq> Inr True" .
  with assms(1,2) show ?thesis
    by (auto simp: isLegalMove_def split: sum.splits bool.splits option.splits if_splits)
qed

text \<open>
  A legal move that is neither a king's two-file step nor a pawn's step to another file
  onto an empty square is pseudo-legal.
\<close>

lemma isLegalMove_plain_pseudoLegal:
  assumes "isLegalMove b from to p lastMove = Inr True"
    and "\<not> (ptype p = KING \<and> \<bar>col to - col from\<bar> = 2)"
    and "\<not> (ptype p = PAWN \<and> col to \<noteq> col from \<and> getPiece b to = None \<and> lastMove \<noteq> None)"
  shows "isPseudoLegal b from to p = Inr True"
proof (rule ccontr)
  assume n: "isPseudoLegal b from to p \<noteq> Inr True"
  with assms(1) consider
      (castle) "ptype p = KING" "isCastlingMove from to (color p)"
    | (ep) lm where "lastMove = Some lm" "ptype p = PAWN" "isEnPassantMove b from to (color p) lm"
    by (auto simp: isLegalMove_def split: sum.splits bool.splits option.splits if_splits)
  then show False
  proof cases
    case castle
    with assms(2) show False
      by (auto simp: isCastlingMove_def Let_def)
  next
    case ep
    with assms(3) show False
      by (auto simp: isEnPassantMove_def Let_def isEmpty_def split: if_splits)
  qed
qed

lemma executeCastling_None:
  assumes "executeCastling b from to c = (b1, None)" and "getPiece b from = Some p"
    and "isCastlingMove from to c"
  shows "getPiece b1 to = Some (p\<lparr>hasMoved := True\<rparr>)"
proof -
  let ?rf = "\<lparr>row = getBackRank c, col = (if col to > col from then 7 else 0)\<rparr>"
  let ?rt = "\<lparr>row = getBackRank c, col = (if col to > col from then 5 else 3)\<rparr>"
  from assms(1) obtain bx where k: "movePiece b from to = Inr bx"
    and r: "movePiece bx ?rf ?rt = Inr b1"
    by (auto simp: executeCastling_def Let_def split: sum.splits)
  from assms(3) have ne: "to \<noteq> ?rf" "to \<noteq> ?rt" "to \<noteq> from"
    by (auto simp: isCastlingMove_def Let_def)
  from movePiece_Inr [OF k] assms(2) ne have "getPiece bx to = Some (p\<lparr>hasMoved := True\<rparr>)"
    by auto
  with movePiece_Inr [OF r] ne show ?thesis
    by auto
qed

subsection \<open>En passant\<close>

lemma pawnCaptures_occupied:
  "q \<in> set (pawnCaptures b position c dirs) \<Longrightarrow> getPiece b q \<noteq> None"
  by (auto simp: pawnCaptures_def Let_def split: if_splits option.splits) metis

lemma generatePawnMoves_target:
  assumes "generatePawnMoves b position c = Inr moves" and "q \<in> set moves"
  shows "col q = col position \<or> getPiece b q \<noteq> None"
proof -
  from assms(1) obtain fwd where
    m: "moves = fwd @ pawnCaptures b position c
           [\<lparr>drow = getPawnDirection c, dcol = -1\<rparr>, \<lparr>drow = getPawnDirection c, dcol = 1\<rparr>]"
    and f: "\<forall>x \<in> set fwd. col x = col position"
    by (auto simp: generatePawnMoves_def Let_def split: sum.splits if_splits dest!: new_Position_Inr)
  with assms(2) pawnCaptures_occupied show ?thesis
    by (metis Un_iff set_append)
qed

lemma pawn_diagonal_to_empty_not_pseudoLegal:
  assumes "ptype p = PAWN" and "col to \<noteq> col from" and "getPiece b to = None"
  shows "isPseudoLegal b from to p \<noteq> Inr True"
proof
  assume "isPseudoLegal b from to p = Inr True"
  with assms(1) obtain moves where g: "generatePawnMoves b from (color p) = Inr moves"
    and "to \<in> set moves"
    by (auto simp: isPseudoLegal_def generateMoves_def list_ex_iff position_equals_iff
             split: sum.splits)
  from generatePawnMoves_target [OF this] assms(2,3) show False
    by simp
qed

lemma canEnPassant_True:
  assumes "canEnPassant b from to c lm = Inr True"
  shows "ptype (piece lm) = PAWN \<and> \<bar>row (mto lm) - row (mfrom lm)\<bar> = 2
       \<and> row from = (if c = WHITE then 3 else 4)
       \<and> row (mto lm) = row from \<and> \<bar>col (mto lm) - col from\<bar> = 1
       \<and> row to = row from + getPawnDirection c \<and> col to = col (mto lm)"
  using assms
  by (simp add: canEnPassant_def Let_def split: if_splits)

lemma isLegalMove_pawn_diagonal_to_empty:
  assumes "isLegalMove b from to p lastMove = Inr True"
    and "ptype p = PAWN" and "col to \<noteq> col from" and "getPiece b to = None"
  shows "\<exists>lm. lastMove = Some lm \<and> isEnPassantMove b from to (color p) lm
            \<and> canEnPassant b from to (color p) lm = Inr True"
proof -
  from pawn_diagonal_to_empty_not_pseudoLegal [OF assms(2-4)]
  have "isPseudoLegal b from to p \<noteq> Inr True" .
  with assms(1,2) show ?thesis
    by (auto simp: isLegalMove_def split: sum.splits bool.splits option.splits if_splits)
qed

lemma executeEnPassant_None:
  assumes "executeEnPassant b from to lm = (b1, None)" and "getPiece b from = Some p"
  shows "\<forall>q. getPiece b1 q =
           (if q = mto lm \<or> q = from then None
            else if q = to then Some (p\<lparr>hasMoved := True\<rparr>) else getPiece b q)"
proof -
  from assms(1) obtain bx where m: "movePiece b from to = Inr bx"
    and s: "setPiece bx (mto lm) None = Inr b1"
    by (auto simp: executeEnPassant_def split: sum.splits)
  from movePiece_Inr [OF m] assms(2) getPiece_setPiece [OF s] show ?thesis
    by auto
qed


lemma classifyAndExecute_castle:
  assumes "classifyAndExecute b from to p captured lastMove = (mt, b1, None)"
    and A: "ptype p = KING \<and> \<bar>col to - col from\<bar> = 2"
  shows "executeCastling b from to (color p) = (b1, None)"
  using assms(1) unfolding classifyAndExecute_def if_P [OF A] by simp

lemma classifyAndExecute_enPassant:
  assumes "classifyAndExecute b from to p captured (Some lm) = (mt, b1, None)"
    and A: "\<not> (ptype p = KING \<and> \<bar>col to - col from\<bar> = 2)"
    and B: "ptype p = PAWN \<and> col to \<noteq> col from \<and> captured = None \<and> Some lm \<noteq> None"
  shows "executeEnPassant b from to lm = (b1, None)"
  using assms(1) unfolding classifyAndExecute_def if_not_P [OF A] if_P [OF B] by simp

lemma classifyAndExecute_plain:
  assumes "classifyAndExecute b from to p captured lastMove = (mt, b1, None)"
    and A: "\<not> (ptype p = KING \<and> \<bar>col to - col from\<bar> = 2)"
    and B: "\<not> (ptype p = PAWN \<and> col to \<noteq> col from \<and> captured = None \<and> lastMove \<noteq> None)"
    and "mt \<noteq> PROMOTION"
  shows "movePiece b from to = Inr b1"
proof (cases "ptype p = PAWN \<and> row to = getPawnPromotionRow (color p)")
  case True
  from assms(1) have "mt = PROMOTION"
    unfolding classifyAndExecute_def if_not_P [OF A] if_not_P [OF B] if_P [OF True] by simp
  with assms(4) show ?thesis by simp
next
  case False
  from assms(1) have
    "(case movePiece b from to of Inl e \<Rightarrow> (b, Some e) | Inr b1 \<Rightarrow> (b1, None)) = (b1, None)"
    unfolding classifyAndExecute_def if_not_P [OF A] if_not_P [OF B] if_not_P [OF False] by simp
  then show ?thesis
    by (cases "movePiece b from to") simp_all
qed

lemma canEnPassant_not_destination:
  assumes "canEnPassant b from to c lm = Inr True"
  shows "mto lm \<noteq> to"
proof -
  from canEnPassant_True [OF assms] have
    "row (mto lm) = row from" "row to = row from + getPawnDirection c"
    by simp_all
  then have "row (mto lm) \<noteq> row to"
    by (simp add: getPawnDirection_def)
  then show ?thesis by auto
qed


text \<open>What a legal move other than a promotion leaves on its destination square.\<close>

lemma classifyAndExecute_destination:
  assumes c: "classifyAndExecute b from to p (getPiece b to) lastMove = (mt, b1, None)"
    and legal: "isLegalMove b from to p lastMove = Inr True"
    and p: "getPiece b from = Some p"
    and mt: "mt \<noteq> PROMOTION"
  shows "getPiece b1 to = Some (p\<lparr>hasMoved := True\<rparr>)"
proof (cases "ptype p = KING \<and> \<bar>col to - col from\<bar> = 2")
  case True
  note e = classifyAndExecute_castle [OF c True]
  from isLegalMove_king_two_cols [OF legal] True have "isCastlingMove from to (color p)"
    by simp
  from executeCastling_None [OF e p this] show ?thesis .
next
  case notA: False
  show ?thesis
  proof (cases "ptype p = PAWN \<and> col to \<noteq> col from \<and> getPiece b to = None \<and> lastMove \<noteq> None")
    case True
    then have pawn: "ptype p = PAWN" and cols: "col to \<noteq> col from" and empty: "getPiece b to = None"
      by simp_all
    from isLegalMove_pawn_diagonal_to_empty [OF legal pawn cols empty] obtain lm where
      lm: "lastMove = Some lm" and can: "canEnPassant b from to (color p) lm = Inr True"
      by blast
    note e = classifyAndExecute_enPassant [OF c [unfolded lm] notA True [unfolded lm]]
    note ne = canEnPassant_not_destination [OF can]
    from cols have "to \<noteq> from" by auto
    with ne executeEnPassant_None [OF e p] show ?thesis
      by simp
  next
    case notB: False
    from isLegalMove_plain_pseudoLegal [OF legal notA notB]
    have "isPseudoLegal b from to p = Inr True" .
    from isPseudoLegal_not_own [OF this] p have ne: "to \<noteq> from"
      by auto
    note m = classifyAndExecute_plain [OF c notA notB mt]
    from movePiece_Inr [OF m] p ne show ?thesis
      by auto
  qed
qed

subsection \<open>An invariant of the history\<close>

lemma classifyAndExecute_promotion:
  assumes "classifyAndExecute b from to p captured lastMove = (PROMOTION, b1, eo)"
  shows "ptype p = PAWN \<and> row to = getPawnPromotionRow (color p)"
proof (rule ccontr)
  assume C: "\<not> (ptype p = PAWN \<and> row to = getPawnPromotionRow (color p))"
  show False
  proof (cases "ptype p = KING \<and> \<bar>col to - col from\<bar> = 2")
    case True
    from assms show False
      unfolding classifyAndExecute_def if_P [OF True] by (simp split: if_splits)
  next
    case A: False
    show False
    proof (cases "ptype p = PAWN \<and> col to \<noteq> col from \<and> captured = None \<and> lastMove \<noteq> None")
      case True
      from assms show False
        unfolding classifyAndExecute_def if_not_P [OF A] if_P [OF True]
        by (simp split: option.splits)
    next
      case B: False
      from assms show False
        unfolding classifyAndExecute_def if_not_P [OF A] if_not_P [OF B] if_not_P [OF C]
        by (simp split: if_splits)
    qed
  qed
qed

lemma getOppositeColor_ne: "getOppositeColor c \<noteq> c"
  by (cases c) (simp_all add: getOppositeColor_def)

lemma color_ne_opposite: "c \<noteq> turn \<Longrightarrow> c = getOppositeColor turn"
  by (cases c; cases turn) (simp_all add: getOppositeColor_def)

lemma getLastMove_snoc: "getLastMove (h @ [e]) = Some (move e)"
  by (simp add: getLastMove_def)

lemma makeMove_historyInvariant:
  assumes inv: "historyInvariant (history s) (board s) (currentTurn s)"
    and mk: "makeMove s now from to = (s', Inr r)" and ok: "success r"
  shows "historyInvariant (history s') (board s') (currentTurn s')"
proof -
  from makeMove_success [OF mk ok] obtain p where
    p: "getPiece (board s) from = Some p" and turn: "color p = currentTurn s"
    and legal: "isLegalMove (board s) from to p (getLastMove (history s)) = Inr True"
    and ex: "executeLegalMove s now from to p = (s', Inr r)"
    by blast
  from executeLegalMove_Inr [OF ex] obtain mt b1 m st where
    c: "classifyAndExecute (board s) from to p (getPiece (board s) to) (getLastMove (history s))
          = (mt, b1, None)"
    and m: "m = \<lparr>mfrom = from, mto = to,
                 piece = p\<lparr>hasMoved := (if mt = PROMOTION then hasMoved p else True)\<rparr>,
                 capturedPiece = getPiece (board s) to,
                 moveType = mt, timestamp = now,
                 notationStr = getMoveNotation from to p mt (getPiece (board s) to),
                 promotionPiece = None\<rparr>"
    and s': "s' = \<lparr>board = b1,
                  history = history s @ [\<lparr>move = m, boardBeforeMove = board s\<rparr>],
                  currentTurn = getOppositeColor (currentTurn s),
                  status = st\<rparr>"
    by blast
  let ?h = "history s"
  let ?e = "\<lparr>move = m, boardBeforeMove = board s\<rparr>"
  have mcol: "color (piece m) = currentTurn s"
    using turn by (simp add: m)
  have stands: "pieceOfMoveStands m b1"
  proof (cases "mt = PROMOTION")
    case True
    from classifyAndExecute_promotion [OF c [unfolded True]] show ?thesis
      by (simp add: pieceOfMoveStands_def m)
  next
    case False
    from classifyAndExecute_destination [OF c legal p False] False show ?thesis
      by (simp add: pieceOfMoveStands_def m)
  qed
  have last: "color (piece m) \<noteq> getOppositeColor (currentTurn s) \<and> pieceOfMoveStands m b1"
    using mcol stands getOppositeColor_ne [of "currentTurn s"] by simp
  have steps: "color (piece (move ((?h @ [?e]) ! i))) \<noteq> color (piece (move ((?h @ [?e]) ! Suc i)))
        \<and> pieceOfMoveStands (move ((?h @ [?e]) ! i)) (boardBeforeMove ((?h @ [?e]) ! Suc i))"
    if i: "Suc i < length (?h @ [?e])" for i
  proof (cases "Suc i < length ?h")
    case True
    with inv show ?thesis
      by (simp add: historyInvariant_def nth_append)
  next
    case False
    with i have eq: "Suc i = length ?h" by simp
    then have ne: "?h \<noteq> []" by auto
    from eq have "i = length ?h - 1" by simp
    then have li: "?h ! i = last ?h"
      using ne by (simp add: last_conv_nth)
    from ne have "getLastMove ?h = Some (move (last ?h))"
      by (simp add: getLastMove_def)
    with inv have "color (piece (move (last ?h))) \<noteq> currentTurn s"
      and "pieceOfMoveStands (move (last ?h)) (board s)"
      by (simp_all add: historyInvariant_def)
    with mcol eq li show ?thesis
      by (simp add: nth_append)
  qed
  show ?thesis
    unfolding historyInvariant_def s'
    using last steps by (simp add: getLastMove_snoc)
qed

lemma undoMove_Inr_form:
  assumes "undoMove s = (s', Inr ok)"
  shows "s' = s \<or> (history s \<noteq> [] \<and> board s' = boardBeforeMove (last (history s))
                   \<and> history s' = butlast (history s)
                   \<and> currentTurn s' = getOppositeColor (currentTurn s))"
proof (cases "length (history s) = 0")
  case True
  with assms show ?thesis
    by (simp add: undoMove_def history_undo_def)
next
  case False
  let ?s1 = "s\<lparr>board := clone_Board (boardBeforeMove (last (history s))),
                history := butlast (history s),
                currentTurn := getOppositeColor (currentTurn s)\<rparr>"
  obtain s2 eo where u: "updateStatus ?s1 = (s2, eo)"
    by (cases "updateStatus ?s1") auto
  show ?thesis
  proof (cases eo)
    case (Some e)
    with assms False u show ?thesis
      by (simp add: undoMove_def history_undo_def Let_def)
  next
    case None
    with assms False u have "s' = s2"
      by (simp add: undoMove_def history_undo_def Let_def)
    with updateStatus_None [OF u [unfolded None]] False show ?thesis
      by (auto simp: clone_Board_id)
  qed
qed

lemma undoMove_historyInvariant:
  assumes inv: "historyInvariant (history s) (board s) (currentTurn s)"
    and un: "undoMove s = (s', Inr ok)"
  shows "historyInvariant (history s') (board s') (currentTurn s')"
proof -
  from undoMove_Inr_form [OF un] show ?thesis
  proof
    assume "s' = s"
    with inv show ?thesis by simp
  next
    let ?h = "history s"
    assume f: "?h \<noteq> [] \<and> board s' = boardBeforeMove (last ?h)
                 \<and> history s' = butlast ?h
                 \<and> currentTurn s' = getOppositeColor (currentTurn s)"
    then have ne: "?h \<noteq> []" by simp
    have lastcol: "color (piece (move (last ?h))) = getOppositeColor (currentTurn s)"
      using inv ne by (simp add: historyInvariant_def getLastMove_def color_ne_opposite)
    have steps: "color (piece (move (butlast ?h ! i))) \<noteq> color (piece (move (butlast ?h ! Suc i)))
          \<and> pieceOfMoveStands (move (butlast ?h ! i)) (boardBeforeMove (butlast ?h ! Suc i))"
      if "Suc i < length (butlast ?h)" for i
      using that inv by (simp add: historyInvariant_def nth_butlast)
    have last: "color (piece (move (last (butlast ?h)))) \<noteq> getOppositeColor (currentTurn s)
          \<and> pieceOfMoveStands (move (last (butlast ?h))) (boardBeforeMove (last ?h))"
      if b: "butlast ?h \<noteq> []"
    proof -
      from ne obtain xs x where hx: "?h = xs @ [x]"
        by (cases ?h rule: rev_cases) auto
      with b have "xs \<noteq> []" by simp
      then have "1 \<le> length xs" by (cases xs) auto
      with hx have len: "2 \<le> length ?h" by simp
      define i where "i = length ?h - 2"
      from len have i: "Suc i < length ?h" "Suc i = length ?h - 1" "i = length (butlast ?h) - 1"
        by (simp_all add: i_def)
      have l1: "last (butlast ?h) = ?h ! i"
        using b i by (simp add: last_conv_nth nth_butlast)
      have l2: "last ?h = ?h ! Suc i"
        using ne i by (simp add: last_conv_nth)
      from inv i(1) have "color (piece (move (?h ! i))) \<noteq> color (piece (move (?h ! Suc i)))"
        and "pieceOfMoveStands (move (?h ! i)) (boardBeforeMove (?h ! Suc i))"
        by (simp_all add: historyInvariant_def)
      with lastcol l1 l2 show ?thesis by simp
    qed
    have glm: "case getLastMove (butlast ?h) of None \<Rightarrow> True
               | Some lm \<Rightarrow> color (piece lm) \<noteq> getOppositeColor (currentTurn s)
                    \<and> pieceOfMoveStands lm (boardBeforeMove (last ?h))"
    proof (cases "butlast ?h = []")
      case True
      then show ?thesis by (simp add: getLastMove_def)
    next
      case False
      then have "getLastMove (butlast ?h) = Some (move (last (butlast ?h)))"
        unfolding getLastMove_def by (simp only: length_0_conv if_False)
      with last [OF False] show ?thesis by simp
    qed
    from f have s': "board s' = boardBeforeMove (last ?h)" "history s' = butlast ?h"
      "currentTurn s' = getOppositeColor (currentTurn s)"
      by simp_all
    show ?thesis
      unfolding historyInvariant_def s'
      using glm steps by blast
  qed
qed

lemma reachable_historyInvariant:
  "reachable s \<Longrightarrow> historyInvariant (history s) (board s) (currentTurn s)"
proof (induction rule: reachable.induct)
  case (reachable_new s)
  then have "s = initialState"
    unfolding new_GameState_initialState by simp
  then show ?case
    by (simp add: historyInvariant_def initialState_fields getLastMove_def)
next
  case (reachable_makeMove s "from" to now s' r)
  show ?case
  proof (cases "success r")
    case True
    from makeMove_historyInvariant [OF reachable_makeMove.IH reachable_makeMove.hyps(4) True]
    show ?thesis .
  next
    case False
    from makeMove_Inr_cases [OF reachable_makeMove.hyps(4)] show ?thesis
    proof
      assume "s' = s"
      with reachable_makeMove.IH show ?thesis by simp
    next
      assume "\<exists>p. executeLegalMove s now from to p = (s', Inr r)"
      then obtain p where "executeLegalMove s now from to p = (s', Inr r)" ..
      from executeLegalMove_Inr [OF this] False show ?thesis by auto
    qed
  qed
next
  case (reachable_undoMove s s' ok)
  from undoMove_historyInvariant [OF reachable_undoMove.IH reachable_undoMove.hyps(2)]
  show ?case .
qed

subsection \<open>Games played move by move\<close>

lemma playMoves_results_prefix:
  "\<exists>xs. fst (foldl (\<lambda>(rs, s0) (from, to). case makeMove s0 now from to of (s1, r) \<Rightarrow> (rs @ [r], s1))
                 (rs, s) ms) = rs @ xs"
proof (induction ms arbitrary: rs s)
  case Nil
  show ?case by simp
next
  case (Cons a ms)
  obtain f t where a: "a = (f, t)" by (cases a)
  obtain s1 r where m: "makeMove s now f t = (s1, r)" by (cases "makeMove s now f t")
  from Cons.IH [of "rs @ [r]" s1] show ?case
    by (auto simp: a m)
qed

lemma playMoves_reachable_aux:
  assumes "reachable s"
    and "list_all (\<lambda>(from, to). board_isValidPosition from \<and> board_isValidPosition to) ms"
    and "list_all (\<lambda>r. \<not> isl r)
           (fst (foldl (\<lambda>(rs, s0) (from, to). case makeMove s0 now from to of (s1, r) \<Rightarrow> (rs @ [r], s1))
                  (rs, s) ms))"
  shows "reachable
           (snd (foldl (\<lambda>(rs, s0) (from, to). case makeMove s0 now from to of (s1, r) \<Rightarrow> (rs @ [r], s1))
                  (rs, s) ms))"
  using assms
proof (induction ms arbitrary: rs s)
  case Nil
  then show ?case by simp
next
  case (Cons a ms)
  obtain f t where a: "a = (f, t)" by (cases a)
  obtain s1 r where m: "makeMove s now f t = (s1, r)" by (cases "makeMove s now f t")
  let ?F = "\<lambda>(rs, s0) (from, to). case makeMove s0 now from to of (s1, r) \<Rightarrow> (rs @ [r], s1)"
  have step: "foldl ?F (rs, s) (a # ms) = foldl ?F (rs @ [r], s1) ms"
    by (simp add: a m)
  from playMoves_results_prefix [of now "rs @ [r]" s1 ms] obtain xs where
    "fst (foldl ?F (rs @ [r], s1) ms) = (rs @ [r]) @ xs" ..
  with Cons.prems(3) step have "\<not> isl r"
    by simp
  then obtain x where r: "r = Inr x"
    by (cases r) auto
  from Cons.prems(2) a have v: "board_isValidPosition f" "board_isValidPosition t"
    and vs: "list_all (\<lambda>(from, to). board_isValidPosition from \<and> board_isValidPosition to) ms"
    by simp_all
  from reachable_makeMove [OF Cons.prems(1) v m [unfolded r]] have "reachable s1" .
  from Cons.IH [OF this vs] Cons.prems(3) step show ?case
    by simp
qed

lemma playMoves_reachable:
  assumes "reachable s"
    and "list_all (\<lambda>(from, to). board_isValidPosition from \<and> board_isValidPosition to) ms"
    and "list_all (\<lambda>r. \<not> isl r) (fst (playMoves s now ms))"
  shows "reachable (snd (playMoves s now ms))"
  using playMoves_reachable_aux [OF assms(1,2), of now "[]"] assms(3)
  by (simp add: playMoves_def)

lemma enPassantGame_evaluated:
  "(case playMoves initialState 0 enPassantOpening of
     (rs, g) \<Rightarrow>
      list_all (\<lambda>r. \<not> isl r) rs
    \<and> currentTurn g = WHITE \<and> status g = ACTIVE
    \<and> getPiece (board g) \<lparr>row = 3, col = 4\<rparr> = Some \<lparr>ptype = PAWN, color = WHITE, hasMoved = True\<rparr>
    \<and> getPiece (board g) \<lparr>row = 3, col = 5\<rparr> = Some \<lparr>ptype = PAWN, color = BLACK, hasMoved = True\<rparr>
    \<and> getPiece (board g) \<lparr>row = 2, col = 5\<rparr> = None
    \<and> map_option mfrom (getLastMove (history g)) = Some \<lparr>row = 1, col = 5\<rparr>
    \<and> map_option mto (getLastMove (history g)) = Some \<lparr>row = 3, col = 5\<rparr>
    \<and> (case makeMove g 0 \<lparr>row = 3, col = 4\<rparr> \<lparr>row = 2, col = 5\<rparr> of
         (s', Inl e) \<Rightarrow> False
       | (s', Inr r) \<Rightarrow>
           success r
         \<and> map_option moveType (resMove r) = Some EN_PASSANT
         \<and> map_option notationStr (resMove r) = Some ''xf6''
         \<and> getPiece (board s') \<lparr>row = 2, col = 5\<rparr> = Some \<lparr>ptype = PAWN, color = WHITE, hasMoved = True\<rparr>
         \<and> getPiece (board s') \<lparr>row = 3, col = 5\<rparr> = None
         \<and> getPiece (board s') \<lparr>row = 3, col = 4\<rparr> = None))"
  by code_simp

lemma enPassantGame_reachable: "reachable enPassantGame"
proof -
  have r: "reachable initialState"
    by (rule reachable_new) (rule new_GameState_initialState)
  have v: "list_all (\<lambda>(from, to). board_isValidPosition from \<and> board_isValidPosition to) enPassantOpening"
    by (simp add: enPassantOpening_def board_isValidPosition_def BOARD_SIZE_def)
  have "list_all (\<lambda>r. \<not> isl r) (fst (playMoves initialState 0 enPassantOpening))"
    using enPassantGame_evaluated by (simp split: prod.splits)
  from playMoves_reachable [OF r v this] show ?thesis
    by (simp add: enPassantGame_def)
qed

lemma enPassantGame_facts:
  "currentTurn enPassantGame = WHITE \<and> status enPassantGame = ACTIVE
    \<and> getPiece (board enPassantGame) \<lparr>row = 3, col = 4\<rparr> = Some \<lparr>ptype = PAWN, color = WHITE, hasMoved = True\<rparr>
    \<and> getPiece (board enPassantGame) \<lparr>row = 3, col = 5\<rparr> = Some \<lparr>ptype = PAWN, color = BLACK, hasMoved = True\<rparr>
    \<and> getPiece (board enPassantGame) \<lparr>row = 2, col = 5\<rparr> = None
    \<and> map_option mfrom (getLastMove (history enPassantGame)) = Some \<lparr>row = 1, col = 5\<rparr>
    \<and> map_option mto (getLastMove (history enPassantGame)) = Some \<lparr>row = 3, col = 5\<rparr>
    \<and> (case makeMove enPassantGame 0 \<lparr>row = 3, col = 4\<rparr> \<lparr>row = 2, col = 5\<rparr> of
         (s', Inl e) \<Rightarrow> False
       | (s', Inr r) \<Rightarrow>
           success r
         \<and> map_option moveType (resMove r) = Some EN_PASSANT
         \<and> map_option notationStr (resMove r) = Some ''xf6''
         \<and> getPiece (board s') \<lparr>row = 2, col = 5\<rparr> = Some \<lparr>ptype = PAWN, color = WHITE, hasMoved = True\<rparr>
         \<and> getPiece (board s') \<lparr>row = 3, col = 5\<rparr> = None
         \<and> getPiece (board s') \<lparr>row = 3, col = 4\<rparr> = None)"
proof -
  obtain rs g where pg: "playMoves initialState 0 enPassantOpening = (rs, g)"
    by (cases "playMoves initialState 0 enPassantOpening")
  then have g: "enPassantGame = g"
    by (simp add: enPassantGame_def)
  from enPassantGame_evaluated [unfolded pg prod.case, THEN conjunct2] show ?thesis
    unfolding g .
qed

subsection \<open>Execution of an en-passant capture\<close>

text \<open>
  Claim C5. When \<^verbatim>\<open>makeMove\<close> succeeds on a pawn that moves to another file onto an
  empty square, the move is an en-passant capture: there is a last move, by a pawn that
  advanced two ranks and stands beside the capturer on the capturer's rank, in the file of
  the destination; the recorded move has type \<^verbatim>\<open>EN_PASSANT\<close>; afterwards the
  capturing pawn stands on the destination, and the origin and the last move's destination
  square, which is not the capture's destination, are empty; no other square changes. In
  a reachable state the square that is cleared held the pawn of the last move, a pawn of
  the other colour.
\<close>

theorem enPassant_capture_execution:
  assumes "makeMove s now from to = (s', Inr r)" and "success r"
    and "getPiece (board s) from = Some p" and "ptype p = PAWN"
    and "col to \<noteq> col from" and "getPiece (board s) to = None"
  shows "\<exists>m lm. resMove r = Some m \<and> getLastMove (history s') = Some m
           \<and> moveType m = EN_PASSANT \<and> mfrom m = from \<and> mto m = to
           \<and> getLastMove (history s) = Some lm
           \<and> ptype (piece lm) = PAWN \<and> \<bar>row (mto lm) - row (mfrom lm)\<bar> = 2
           \<and> row to = row from + getPawnDirection (color p) \<and> \<bar>col to - col from\<bar> = 1
           \<and> mto lm = \<lparr>row = row from, col = col to\<rparr> \<and> mto lm \<noteq> to
           \<and> (reachable s \<longrightarrow>
                 getPiece (board s) (mto lm) = Some (piece lm) \<and> color (piece lm) \<noteq> color p)
           \<and> getPiece (board s') to = Some (p\<lparr>hasMoved := True\<rparr>)
           \<and> getPiece (board s') from = None
           \<and> getPiece (board s') (mto lm) = None
           \<and> (\<forall>q. q \<noteq> from \<and> q \<noteq> to \<and> q \<noteq> mto lm
                  \<longrightarrow> getPiece (board s') q = getPiece (board s) q)"
proof -
  from makeMove_success [OF assms(1,2)] assms(3) have
    legal: "isLegalMove (board s) from to p (getLastMove (history s)) = Inr True"
    and turn: "color p = currentTurn s"
    and ex: "executeLegalMove s now from to p = (s', Inr r)"
    by auto
  from isLegalMove_pawn_diagonal_to_empty [OF legal assms(4-6)] obtain lm where
    lm: "getLastMove (history s) = Some lm"
    and can: "canEnPassant (board s) from to (color p) lm = Inr True"
    by blast
  from canEnPassant_True [OF can] have
    geo: "row (mto lm) = row from" "col to = col (mto lm)"
         "row to = row from + getPawnDirection (color p)"
         "\<bar>col (mto lm) - col from\<bar> = 1"
    and qual: "ptype (piece lm) = PAWN" "\<bar>row (mto lm) - row (mfrom lm)\<bar> = 2"
    and rank: "row from = (if color p = WHITE then 3 else 4)"
    by auto
  have sq: "mto lm = \<lparr>row = row from, col = col to\<rparr>"
    using geo(1,2) by (cases "mto lm") simp
  note ne = canEnPassant_not_destination [OF can]
  have passed: "getPiece (board s) (mto lm) = Some (piece lm) \<and> color (piece lm) \<noteq> color p"
    if "reachable s"
  proof -
    from reachable_historyInvariant [OF that] lm have
      c: "color (piece lm) \<noteq> currentTurn s" and st: "pieceOfMoveStands lm (board s)"
      by (simp_all add: historyInvariant_def)
    from geo(1) rank have "row (mto lm) \<noteq> getPawnPromotionRow (color (piece lm))"
      by (simp add: getPawnPromotionRow_def)
    with st c turn show ?thesis
      by (simp add: pieceOfMoveStands_def)
  qed
  have cls: "classifyAndExecute (board s) from to p (getPiece (board s) to) (getLastMove (history s))
               = (EN_PASSANT, executeEnPassant (board s) from to lm)"
    using assms(4-6) lm by (simp add: classifyAndExecute_def)
  from executeLegalMove_Inr [OF ex] obtain mt b1 m st where
    c: "classifyAndExecute (board s) from to p (getPiece (board s) to) (getLastMove (history s))
          = (mt, b1, None)"
    and m: "m = \<lparr>mfrom = from, mto = to,
                 piece = p\<lparr>hasMoved := (if mt = PROMOTION then hasMoved p else True)\<rparr>,
                 capturedPiece = getPiece (board s) to,
                 moveType = mt, timestamp = now,
                 notationStr = getMoveNotation from to p mt (getPiece (board s) to),
                 promotionPiece = None\<rparr>"
    and s': "s' = \<lparr>board = b1,
                  history = history s @ [\<lparr>move = m, boardBeforeMove = board s\<rparr>],
                  currentTurn = getOppositeColor (currentTurn s),
                  status = st\<rparr>"
    and r: "r = \<lparr>success = True, resMove = Some m, resError = None, newStatus = Some st,
                 resCapturedPiece = getPiece (board s) to\<rparr>"
    by blast
  from c cls have mt: "mt = EN_PASSANT" and e: "executeEnPassant (board s) from to lm = (b1, None)"
    by simp_all
  note b1 = executeEnPassant_None [OF e assms(3)]
  have "from \<noteq> to" using assms(5) by auto
  with b1 ne have
    "getPiece b1 to = Some (p\<lparr>hasMoved := True\<rparr>)" "getPiece b1 from = None"
    "getPiece b1 (mto lm) = None"
    "\<forall>q. q \<noteq> from \<and> q \<noteq> to \<and> q \<noteq> mto lm \<longrightarrow> getPiece b1 q = getPiece (board s) q"
    by auto
  with lm sq ne mt geo qual passed show ?thesis
    by (simp add: s' r m getLastMove_def)
qed

theorem enPassant_capture_execution_witness:
  "reachable enPassantGame
   \<and> getPiece (board enPassantGame) \<lparr>row = 3, col = 4\<rparr> = Some \<lparr>ptype = PAWN, color = WHITE, hasMoved = True\<rparr>
   \<and> getPiece (board enPassantGame) \<lparr>row = 2, col = 5\<rparr> = None
   \<and> getPiece (board enPassantGame) \<lparr>row = 3, col = 5\<rparr> = Some \<lparr>ptype = PAWN, color = BLACK, hasMoved = True\<rparr>
   \<and> map_option mto (getLastMove (history enPassantGame)) = Some \<lparr>row = 3, col = 5\<rparr>
   \<and> map_option piece (getLastMove (history enPassantGame)) = Some \<lparr>ptype = PAWN, color = BLACK, hasMoved = True\<rparr>
   \<and> (case makeMove enPassantGame 0 \<lparr>row = 3, col = 4\<rparr> \<lparr>row = 2, col = 5\<rparr> of
         (s', Inl e) \<Rightarrow> False
       | (s', Inr r) \<Rightarrow>
           success r
         \<and> map_option moveType (resMove r) = Some EN_PASSANT
         \<and> map_option moveType (getLastMove (history s')) = Some EN_PASSANT
         \<and> getPiece (board s') \<lparr>row = 2, col = 5\<rparr> = Some \<lparr>ptype = PAWN, color = WHITE, hasMoved = True\<rparr>
         \<and> getPiece (board s') \<lparr>row = 3, col = 5\<rparr> = None
         \<and> getPiece (board s') \<lparr>row = 7, col = 4\<rparr> = getPiece (board enPassantGame) \<lparr>row = 7, col = 4\<rparr>)"
proof -
  let ?e5 = "\<lparr>row = 3, col = 4\<rparr>" and ?f6 = "\<lparr>row = 2, col = 5\<rparr>"
  note ev = enPassantGame_facts
  from ev obtain s' r where m: "makeMove enPassantGame 0 ?e5 ?f6 = (s', Inr r)" and r: "success r"
    by (cases "makeMove enPassantGame 0 ?e5 ?f6") (auto split: sum.splits)
  have p: "getPiece (board enPassantGame) ?e5 = Some \<lparr>ptype = PAWN, color = WHITE, hasMoved = True\<rparr>"
    and e: "getPiece (board enPassantGame) ?f6 = None"
    using ev by simp_all
  from enPassant_capture_execution [OF m r p _ _ e] enPassantGame_reachable ev m show ?thesis
    by auto
qed

subsection \<open>Castling\<close>

lemma squaresStrictlyBetween_simps:
  "squaresStrictlyBetween c Kingside =
     [\<lparr>row = getBackRank c, col = 5\<rparr>, \<lparr>row = getBackRank c, col = 6\<rparr>]"
  "squaresStrictlyBetween c Queenside =
     [\<lparr>row = getBackRank c, col = 1\<rparr>, \<lparr>row = getBackRank c, col = 2\<rparr>, \<lparr>row = getBackRank c, col = 3\<rparr>]"
  by (simp_all add: squaresStrictlyBetween_def kingHome_def rookHome_def upto.simps)

lemma kingTransitSquares_simps:
  "kingTransitSquares c Kingside =
     [\<lparr>row = getBackRank c, col = 5\<rparr>, \<lparr>row = getBackRank c, col = 6\<rparr>]"
  "kingTransitSquares c Queenside =
     [\<lparr>row = getBackRank c, col = 3\<rparr>, \<lparr>row = getBackRank c, col = 2\<rparr>]"
  by (simp_all add: kingTransitSquares_def)

lemma kingPassesSafely_iff:
  "kingPassesSafely b c (kingHome c) squares = Inr True
     \<longleftrightarrow> list_all (relocatedKingSafe b c) squares"
  by (induction squares) (auto simp: relocatedKingSafe_def split: sum.splits bool.splits)

text \<open>
  Claim C6, as amended. For every board, colour and side, \<^verbatim>\<open>canCastle\<close> returns true
  if and only if: a king, of either colour, is present and unmoved on the e-file square of
  the colour's back rank; a rook, of either colour, is present and unmoved on the h-file
  (kingside) or a-file (queenside) square of that rank; all squares strictly between them
  are empty; \<^verbatim>\<open>isKingInCheck\<close> returns false for the colour on the board; and for each
  square the king transits (one step, then two steps toward the rook) it returns false on
  the board on which the king alone has been relocated to that square.
\<close>

theorem canCastle_conditions:
  "canCastle b c side = Inr True \<longleftrightarrow> castlingConditions b c side"
proof (cases side)
  case Kingside
  show ?thesis
    using kingPassesSafely_iff [of b c "kingTransitSquares c Kingside"]
    unfolding Kingside castlingConditions_def squaresStrictlyBetween_simps
    by (auto simp: canCastle_def Let_def kingHome_def rookHome_def kingTransitSquares_simps
             split: option.splits sum.splits bool.splits)
next
  case Queenside
  show ?thesis
    using kingPassesSafely_iff [of b c "kingTransitSquares c Queenside"]
    unfolding Queenside castlingConditions_def squaresStrictlyBetween_simps
    by (auto simp: canCastle_def Let_def kingHome_def rookHome_def kingTransitSquares_simps
             split: option.splits sum.splits bool.splits)
qed

theorem canCastle_conditions_witness:
  "canCastle whiteCanCastleBoard WHITE Kingside = Inr True
   \<and> castlingConditions whiteCanCastleBoard WHITE Kingside
   \<and> castlingConditionsClaimed whiteCanCastleBoard WHITE Kingside"
proof -
  have "canCastle whiteCanCastleBoard WHITE Kingside = Inr True"
    by code_simp
  moreover have "castlingConditionsClaimed whiteCanCastleBoard WHITE Kingside"
    by code_simp
  ultimately show ?thesis
    using canCastle_conditions [of whiteCanCastleBoard WHITE Kingside] by simp
qed

text \<open>
  The claim as stated asks for the castling colour's own king and rook. On a board with an
  unmoved black king on e1 and an unmoved black rook on h1, \<^verbatim>\<open>canCastle\<close> returns true
  for White's kingside, and the claimed conditions do not hold.
\<close>

theorem canCastle_ignores_colour_counterexample:
  "canCastle blackPiecesOnWhiteHome WHITE Kingside = Inr True
   \<and> \<not> castlingConditionsClaimed blackPiecesOnWhiteHome WHITE Kingside"
  by code_simp

subsection \<open>Notation of an en-passant capture\<close>

text \<open>
  Claim C7, at its failing input. In the game 1. e4 Nc6 2. e5 f5 the call
  \<^verbatim>\<open>makeMove(e5, f6)\<close> succeeds with move type \<^verbatim>\<open>EN_PASSANT\<close>, and the notation it
  records is \<open>xf6\<close>, without the originating file letter, where the claim says \<open>exf6\<close>.
\<close>

theorem enPassant_notation_lacks_file:
  "(case makeMove enPassantGame 0 \<lparr>row = 3, col = 4\<rparr> \<lparr>row = 2, col = 5\<rparr> of
      (s', Inl e) \<Rightarrow> False
    | (s', Inr r) \<Rightarrow>
        success r
      \<and> map_option moveType (resMove r) = Some EN_PASSANT
      \<and> map_option notationStr (resMove r) = Some ''xf6'')"
  using enPassantGame_facts
  by (auto split: prod.splits sum.splits)

subsection \<open>Pawn moves\<close>

text \<open>
  Away from its last rank a pawn gets the moves the claim C8 lists: the forward square if
  empty, the second forward square from the starting row if both are empty, and the
  diagonal squares on the board that hold an opposing piece.
\<close>

lemma generatePawnMoves_inside:
  assumes "isValidPosition (row position + getPawnDirection c) (col position)"
  shows "generateMoves b position \<lparr>ptype = PAWN, color = c, hasMoved = m\<rparr> =
     Inr ((let forwardOne = \<lparr>row = row position + getPawnDirection c, col = col position\<rparr>;
               forwardTwo = \<lparr>row = row position + 2 * getPawnDirection c, col = col position\<rparr>
           in if isEmpty b forwardOne
              then forwardOne # (if row position = getPawnStartRow c \<and> isEmpty b forwardTwo
                                 then [forwardTwo] else [])
              else [])
          @ filter (\<lambda>q. isValidPosition (row q) (col q)
                        \<and> (case getPiece b q of None \<Rightarrow> False | Some t \<Rightarrow> color t \<noteq> c))
              [\<lparr>row = row position + getPawnDirection c, col = col position - 1\<rparr>,
               \<lparr>row = row position + getPawnDirection c, col = col position + 1\<rparr>])"
  using assms
  by (cases c)
     (auto simp: generateMoves_def generatePawnMoves_def pawnCaptures_def new_Position_def
        getPawnDirection_def getPawnStartRow_def isValidPosition_def BOARD_SIZE_def Let_def
        split: option.splits)

text \<open>
  Claim C8, at its failing input. For a white pawn on row 0 and for a black pawn on row 7,
  on any board, \<^verbatim>\<open>generateMoves\<close> raises the \<^verbatim>\<open>Position\<close> constructor's error for
  the forward square, where the claim says it returns the list without that square.
\<close>

theorem pawn_on_last_rank_raises:
  "generateMoves b \<lparr>row = 0, col = 4\<rparr> \<lparr>ptype = PAWN, color = WHITE, hasMoved = True\<rparr>
     = Inl (InvalidPosition (- 1) 4)
   \<and> generateMoves b \<lparr>row = 7, col = 4\<rparr> \<lparr>ptype = PAWN, color = BLACK, hasMoved = True\<rparr>
     = Inl (InvalidPosition 8 4)"
  by (simp add: generateMoves_def generatePawnMoves_def new_Position_def getPawnDirection_def
        getPawnStartRow_def)

subsection \<open>The four-move mate\<close>

text \<open>
  Claim C1, at its failing input. From the starting position the calls f2-f3, e7-e5 and
  g2-g4 succeed. The fourth call, Qd8-h4, raises the \<^verbatim>\<open>Position\<close> constructor's error
  for row 5, column -1: the queen stands on h4, four moves are recorded and the turn is
  White's, but the status is still \<^verbatim>\<open>ACTIVE\<close>, not \<^verbatim>\<open>CHECKMATE\<close>. The next call,
  e2-e4, returns the failure \<open>Illegal move\<close>, not \<open>Game is already over\<close>.
\<close>

theorem fools_mate_raises:
  "(case playMoves initialState now
      [(\<lparr>row = 6, col = 5\<rparr>, \<lparr>row = 5, col = 5\<rparr>), (\<lparr>row = 1, col = 4\<rparr>, \<lparr>row = 3, col = 4\<rparr>),
       (\<lparr>row = 6, col = 6\<rparr>, \<lparr>row = 4, col = 6\<rparr>), (\<lparr>row = 0, col = 3\<rparr>, \<lparr>row = 4, col = 7\<rparr>),
       (\<lparr>row = 6, col = 4\<rparr>, \<lparr>row = 4, col = 4\<rparr>)] of
     (rs, s) \<Rightarrow>
       map outcome rs =
         [Inr (True, None), Inr (True, None), Inr (True, None),
          Inl (InvalidPosition 5 (- 1)), Inr (False, Some ''Illegal move'')]
       \<and> status s = ACTIVE \<and> currentTurn s = WHITE \<and> getMoveCount (history s) = 4
       \<and> getPiece (board s) \<lparr>row = 4, col = 7\<rparr> = Some \<lparr>ptype = QUEEN, color = BLACK, hasMoved = True\<rparr>)"
  by code_simp

subsection \<open>Legal moves of a pawn on the a-file or the h-file\<close>

text \<open>
  Claim C2, at its failing input. After 1. e4 from the starting position it is Black's
  turn and a last move exists. \<^verbatim>\<open>getLegalMoves\<close> raises the \<^verbatim>\<open>Position\<close>
  constructor's error for the black pawn on a7 (column -1) and for the one on h7
  (column 8), where the claim says it returns the pawn's legal destinations; for the pawn
  on d7 it returns d6 and d5.
\<close>

theorem getLegalMoves_edge_pawn_raises:
  "(case playMoves initialState now [(\<lparr>row = 6, col = 4\<rparr>, \<lparr>row = 4, col = 4\<rparr>)] of
     (rs, s) \<Rightarrow>
       map outcome rs = [Inr (True, None)]
     \<and> getPiece (board s) \<lparr>row = 1, col = 0\<rparr> = Some \<lparr>ptype = PAWN, color = BLACK, hasMoved = False\<rparr>
     \<and> currentTurn s = BLACK
     \<and> getLegalMoves s \<lparr>row = 1, col = 0\<rparr> = Inl (InvalidPosition 2 (- 1))
     \<and> getLegalMoves s \<lparr>row = 1, col = 7\<rparr> = Inl (InvalidPosition 2 8)
     \<and> getLegalMoves s \<lparr>row = 1, col = 3\<rparr> = Inr [\<lparr>row = 2, col = 3\<rparr>, \<lparr>row = 3, col = 3\<rparr>])"
  by code_simp

end
